theory Spec2Isabelle
  imports Complex_Main
begin

section \<open>Python values, dictionaries and exceptions\<close>

text \<open>
  The monitor keeps JSON-decoded data in Python dictionaries. The values that the
  functions below compare, test for truth or store are scalars: \<open>None\<close>, booleans,
  integers and strings. Floats and nested containers (the payload under \<open>result\<close>)
  are never inspected by the code modelled here and are left out.
\<close>

datatype pyval = PNone | PBool bool | PInt int | PStr string

type_synonym pydict = "string \<rightharpoonup> pyval"

text \<open>Python's \<open>==\<close> on these values: \<open>True == 1\<close> and \<open>False == 0\<close> hold.\<close>

fun py_eq :: "pyval \<Rightarrow> pyval \<Rightarrow> bool" where
  "py_eq PNone PNone = True"
| "py_eq (PBool a) (PBool b) = (a = b)"
| "py_eq (PInt a) (PInt b) = (a = b)"
| "py_eq (PBool a) (PInt b) = ((if a then 1 else 0) = b)"
| "py_eq (PInt a) (PBool b) = (a = (if b then 1 else 0))"
| "py_eq (PStr a) (PStr b) = (a = b)"
| "py_eq _ _ = False"

text \<open>Python's \<open>x in xs\<close> on a list: some element equals \<open>x\<close>.\<close>

primrec py_in :: "pyval \<Rightarrow> pyval list \<Rightarrow> bool" where
  "py_in x [] = False"
| "py_in x (e # es) = (py_eq e x \<or> py_in x es)"

text \<open>Truth value of an object in a condition.\<close>

fun truthy :: "pyval \<Rightarrow> bool" where
  "truthy PNone = False"
| "truthy (PBool b) = b"
| "truthy (PInt i) = (i \<noteq> 0)"
| "truthy (PStr s) = (s \<noteq> [])"

text \<open>\<open>d.get(k)\<close>: the value, or \<open>None\<close> when the key is missing.\<close>

definition dget :: "pydict \<Rightarrow> string \<Rightarrow> pyval" where
  "dget d k = (case d k of None \<Rightarrow> PNone | Some v \<Rightarrow> v)"

text \<open>
  The exceptions that reach the processor loop. \<open>OtherException\<close> stands for any
  other subclass of \<open>Exception\<close> raised by a collaborator.
\<close>

datatype error =
    KeyError string
  | IndexError
  | CancelledError
  | KeyboardInterrupt
  | OtherException string

text \<open>
  A queue item is a dictionary with the keys \<open>data\<close> and \<open>server_url\<close>; either may be
  missing, and subscripting a missing key raises \<open>KeyError\<close>.
\<close>

record message =
  data :: "pydict option"
  server_url :: "pyval option"

text \<open>The configuration values read by the code (the settings module itself is external).\<close>

record settings =
  PROCESSED_VAL_MAX :: int
  REMOVE_DUP_VALIDATORS :: bool
  FORK_CHECK_FREQ :: real
  CONSOLE_OUT :: bool
  CONSOLE_REFRESH_TIME :: real
  ADMIN_HEARTBEAT :: bool
  HEARTBEAT_INTERVAL :: real
  ADMIN_NOTIFICATIONS :: "pyval list"

section \<open>\<open>process_validation_output.py\<close>\<close>

subsection \<open>\<open>del_dup_validators\<close>\<close>

text \<open>
  The loop of \<open>del_dup_validators\<close>, with its two accumulators \<open>val_keys\<close> and
  \<open>table_new\<close>. \<open>validator.get('master_key')\<close> is \<open>None\<close> for a record without the key.
\<close>

fun del_dup_loop :: "pydict list \<Rightarrow> pyval list \<Rightarrow> pydict list \<Rightarrow> pyval list \<times> pydict list" where
  "del_dup_loop [] val_keys table_new = (val_keys, table_new)"
| "del_dup_loop (validator # rest) val_keys table_new =
     (let master_key = dget validator ''master_key'' in
      if \<not> py_in master_key val_keys
      then del_dup_loop rest (val_keys @ [master_key]) (table_new @ [validator])
      else del_dup_loop rest val_keys table_new)"

definition del_dup_validators :: "pydict list \<Rightarrow> pyval list \<times> pydict list" where
  "del_dup_validators table = del_dup_loop table [] []"

subsection \<open>\<open>clean_validations\<close>\<close>

text \<open>
  \<open>int(settings.PROCESSED_VAL_MAX / 2)\<close>: true division, then truncation toward zero
  (exact while the ceiling is below \<open>2^53\<close> in magnitude).
\<close>

definition int_half :: "int \<Rightarrow> int" where
  "int_half n = (if 0 \<le> n then n div 2 else - ((- n) div 2))"

text \<open>
  \<open>del xs[0:k]\<close>: a negative stop counts from the end, and the stop is clamped to the
  bounds of the list.
\<close>

definition del_prefix :: "'a list \<Rightarrow> int \<Rightarrow> 'a list" where
  "del_prefix xs k =
     (let n = int (length xs);
          stop = (if k < 0 then max 0 (n + k) else min k n)
      in drop (nat stop) xs)"

definition clean_validations ::
  "settings \<Rightarrow> pyval list \<Rightarrow> pydict list \<Rightarrow> pyval list \<Rightarrow> pyval list \<times> pydict list \<times> pyval list" where
  "clean_validations settings val_keys table processed_validations =
     (if PROCESSED_VAL_MAX settings \<le> int (length processed_validations) then
        (let half_list = int_half (PROCESSED_VAL_MAX settings);
             processed_validations' = del_prefix processed_validations half_list
         in if REMOVE_DUP_VALIDATORS settings
            then (case del_dup_validators table of
                    (val_keys', table') \<Rightarrow> (val_keys', table', processed_validations'))
            else (val_keys, table, processed_validations'))
      else (val_keys, table, processed_validations))"

subsection \<open>\<open>update_table_validator\<close>\<close>

text \<open>
  The match test of the loop, \<open>A and B or C\<close>, evaluated left to right with short
  circuit: \<open>validator['master_key']\<close> is read only when the message's master key is
  truthy, \<open>validator['validation_public_key']\<close> only when the first conjunction is
  false. Either subscript raises \<open>KeyError\<close> on a record without the key.
\<close>

definition match_ephemeral :: "pydict \<Rightarrow> pydict \<Rightarrow> error + bool" where
  "match_ephemeral message validator =
     (case validator ''validation_public_key'' of
        None \<Rightarrow> Inl (KeyError ''validation_public_key'')
      | Some k \<Rightarrow> Inr (py_eq (dget message ''validation_public_key'') k))"

definition match_validator :: "pydict \<Rightarrow> pydict \<Rightarrow> error + bool" where
  "match_validator message validator =
     (if truthy (dget message ''master_key'') then
        (case validator ''master_key'' of
           None \<Rightarrow> Inl (KeyError ''master_key'')
         | Some k \<Rightarrow>
             if py_eq (dget message ''master_key'') k then Inr True
             else match_ephemeral message validator)
      else match_ephemeral message validator)"

text \<open>
  The inner loop: every key of the record that the message also has takes the
  message's value; keys of the message that the record lacks are not added.
\<close>

definition merge_fields :: "pydict \<Rightarrow> pydict \<Rightarrow> pydict" where
  "merge_fields validator message =
     (\<lambda>key. case validator key of
              None \<Rightarrow> None
            | Some old \<Rightarrow> (case message key of None \<Rightarrow> Some old | Some new \<Rightarrow> Some new))"

definition update_validator :: "string \<Rightarrow> pydict \<Rightarrow> pydict \<Rightarrow> pydict" where
  "update_validator now message validator =
     (merge_fields validator message)(''time_updated'' \<mapsto> PStr now)"

text \<open>
  The outer loop mutates the records in place, so the records before the one whose
  test raises keep their update. \<open>now\<close> is the formatted local time.
\<close>

fun update_loop :: "string \<Rightarrow> pydict \<Rightarrow> pydict list \<Rightarrow> error option \<times> pydict list" where
  "update_loop now message [] = (None, [])"
| "update_loop now message (validator # rest) =
     (case match_validator message validator of
        Inl e \<Rightarrow> (Some e, validator # rest)
      | Inr hit \<Rightarrow>
          (case update_loop now message rest of
             (err, rest') \<Rightarrow>
               (err, (if hit then update_validator now message validator else validator) # rest')))"

definition update_table_validator ::
  "string \<Rightarrow> pydict list \<Rightarrow> message \<Rightarrow> error option \<times> pydict list" where
  "update_table_validator now table message =
     (case data message of
        None \<Rightarrow> (Some (KeyError ''data''), table)
      | Some d \<Rightarrow> update_loop now d table)"

subsection \<open>\<open>process_validations\<close> and \<open>check_validations\<close>\<close>

text \<open>
  The three lists threaded through the handler: the tracked keys, the validator table
  and the log of processed signatures. An exception leaves them as they are at the
  raise, in-place changes included.
\<close>

type_synonym vstate = "pyval list \<times> pydict list \<times> pyval list"

definition process_validations ::
  "settings \<Rightarrow> string \<Rightarrow> pyval list \<Rightarrow> pydict list \<Rightarrow> pyval list \<Rightarrow> message
     \<Rightarrow> error option \<times> vstate" where
  "process_validations settings now val_keys table_validator processed_validations message =
     (case server_url message of
        None \<Rightarrow> (Some (KeyError ''server_url''), (val_keys, table_validator, processed_validations))
      | Some _ \<Rightarrow>
          (case update_table_validator now table_validator message of
             (Some e, table') \<Rightarrow> (Some e, (val_keys, table', processed_validations))
           | (None, table') \<Rightarrow>
               (case data message of
                  None \<Rightarrow> (Some (KeyError ''data''), (val_keys, table', processed_validations))
                | Some d \<Rightarrow>
                    (case d ''signature'' of
                       None \<Rightarrow>
                         (Some (KeyError ''signature''), (val_keys, table', processed_validations))
                     | Some sg \<Rightarrow>
                         (None, clean_validations settings val_keys table'
                                  (processed_validations @ [sg]))))))"

text \<open>The scope filter \<open>A or B and C\<close>, that is \<open>A or (B and C)\<close>.\<close>

definition in_scope :: "pyval list \<Rightarrow> pydict \<Rightarrow> bool" where
  "in_scope val_keys d =
     (py_in (dget d ''master_key'') val_keys
      \<or> (py_in (dget d ''validation_public_key'') val_keys
          \<and> truthy (dget d ''validation_public_key'')))"

definition check_validations ::
  "settings \<Rightarrow> string \<Rightarrow> pyval list \<Rightarrow> pydict list \<Rightarrow> pyval list \<Rightarrow> message
     \<Rightarrow> error option \<times> vstate" where
  "check_validations settings now val_keys table_validator processed_validations message =
     (case data message of
        None \<Rightarrow> (Some (KeyError ''data''), (val_keys, table_validator, processed_validations))
      | Some d \<Rightarrow>
          if in_scope val_keys d then
            (case d ''signature'' of
               None \<Rightarrow>
                 (Some (KeyError ''signature''), (val_keys, table_validator, processed_validations))
             | Some sg \<Rightarrow>
                 if \<not> py_in sg processed_validations
                 then process_validations settings now val_keys table_validator
                        processed_validations message
                 else (None, (val_keys, table_validator, processed_validations)))
          else
            (case server_url message of
               None \<Rightarrow>
                 (Some (KeyError ''server_url''), (val_keys, table_validator, processed_validations))
             | Some _ \<Rightarrow> (None, (val_keys, table_validator, processed_validations))))"

text \<open>
  The validation handler fed with one message after the other, as the processor loop
  feeds it: each call starts from the lists the call before left behind, whether it
  returned or raised. The result lists the three lists after each message; each
  message comes with the local time string of its processing.
\<close>

fun validation_stream :: "settings \<Rightarrow> vstate \<Rightarrow> (string \<times> message) list \<Rightarrow> vstate list" where
  "validation_stream settings st [] = []"
| "validation_stream settings st ((now, message) # rest) =
     (case st of
        (val_keys, table_validator, processed_validations) \<Rightarrow>
          (let st' = snd (check_validations settings now val_keys table_validator
                            processed_validations message)
           in st' # validation_stream settings st' rest))"

section \<open>\<open>process_output.py\<close>\<close>

text \<open>
  An outbound notification (the dictionary with the keys \<open>message\<close> and \<open>server\<close>),
  and the clock as one loop iteration reads it: \<open>time.time()\<close> with its two
  renderings. All reads within one iteration see the same instant.
\<close>

record notification =
  n_message :: string
  n_server :: pyval

record tick =
  clock :: real
  localtime :: string
  gmtime :: string

text \<open>What the loop's three \<open>except\<close> clauses write to the log.\<close>

datatype log_entry =
    UnexpectedMessage error message
  | ProcessorStopped
  | UncaughtException error

datatype severity = Warning | Critical

fun level :: "log_entry \<Rightarrow> severity" where
  "level (UnexpectedMessage e m) = Warning"
| "level ProcessorStopped = Critical"
| "level (UncaughtException e) = Critical"

text \<open>
  The attributes of \<open>ResponseProcessor\<close>. The inbound queue is the list of deliveries
  the loop is run on; \<open>logged\<close> collects the loop's own log records.
\<close>

record processor =
  table_stock :: "pydict list"
  table_validator :: "pydict list"
  ll_modes :: "string list"
  val_keys :: "pyval list"
  processed_validations :: "pyval list"
  notification_queue :: "notification list"
  time_last_output :: real
  time_fork_check :: real
  last_heartbeat :: real
  logged :: "log_entry list"

text \<open>
  The collaborators living in other modules: the server and ledger handlers, the fork
  checker and the two table printers. Each either returns or raises; the printers
  work on copies and return nothing.
\<close>

record collaborators =
  update_table_server ::
    "pydict list \<Rightarrow> notification list \<Rightarrow> message \<Rightarrow> error + pydict list \<times> notification list"
  update_table_ledger :: "pydict list \<Rightarrow> message \<Rightarrow> error + pydict list"
  fork_checker ::
    "settings \<Rightarrow> pydict list \<Rightarrow> pydict list \<Rightarrow> notification list
       \<Rightarrow> error + (string list \<times> pydict list \<times> pydict list) \<times> notification list"
  print_table_server :: "pydict list \<Rightarrow> error option"
  print_table_validation :: "pydict list \<Rightarrow> error option"

text \<open>\<open>__init__\<close>, run at time \<open>t0\<close>.\<close>

definition init :: "real \<Rightarrow> processor" where
  "init t0 =
     \<lparr>table_stock = [], table_validator = [], ll_modes = [], val_keys = [],
      processed_validations = [], notification_queue = [],
      time_last_output = 0, time_fork_check = 0, last_heartbeat = t0, logged = []\<rparr>"

subsection \<open>The periodic triggers\<close>

definition process_console_output ::
  "collaborators \<Rightarrow> settings \<Rightarrow> tick \<Rightarrow> processor \<Rightarrow> error option \<times> processor" where
  "process_console_output ext settings t s =
     (if CONSOLE_OUT settings
         \<and> CONSOLE_REFRESH_TIME settings \<le> clock t - time_last_output s then
        (case print_table_server ext (table_stock s) of
           Some e \<Rightarrow> (Some e, s)
         | None \<Rightarrow>
             (case (if table_validator s \<noteq> []
                    then print_table_validation ext (table_validator s) else None) of
                Some e \<Rightarrow> (Some e, s)
              | None \<Rightarrow> (None, s\<lparr>time_last_output := clock t\<rparr>)))
      else (None, s))"

definition evaluate_forks ::
  "collaborators \<Rightarrow> settings \<Rightarrow> tick \<Rightarrow> processor \<Rightarrow> error option \<times> processor" where
  "evaluate_forks ext settings t s =
     (if FORK_CHECK_FREQ settings < clock t - time_fork_check s then
        (case fork_checker ext settings (table_stock s) (table_validator s)
                (notification_queue s) of
           Inl e \<Rightarrow> (Some e, s)
         | Inr ((modes, stock, validators), queue) \<Rightarrow>
             (None, s\<lparr>ll_modes := modes, table_stock := stock, table_validator := validators,
                        notification_queue := queue, time_fork_check := clock t\<rparr>))
      else (None, s))"

text \<open>The heartbeat text; \<open>self.ll_modes[0]\<close> raises \<open>IndexError\<close> on an empty list.\<close>

definition heartbeat_text :: "string \<Rightarrow> string \<Rightarrow> string" where
  "heartbeat_text mode now =
     ''XRPL Livenet Monitor bot heartbeat. '' @ ''LL mode: '' @ mode @ ''. ''
       @ ''Server time (UTC): '' @ now @ ''.''"

definition heartbeat_message :: "settings \<Rightarrow> tick \<Rightarrow> processor \<Rightarrow> error option \<times> processor" where
  "heartbeat_message settings t s =
     (if ADMIN_HEARTBEAT settings
         \<and> HEARTBEAT_INTERVAL settings \<le> clock t - last_heartbeat s then
        (case ll_modes s of
           [] \<Rightarrow> (Some IndexError, s)
         | mode # _ \<Rightarrow>
             (None,
              s\<lparr>notification_queue :=
                   notification_queue s
                     @ map (\<lambda>admin. \<lparr>n_message = heartbeat_text mode (gmtime t), n_server = admin\<rparr>)
                         (ADMIN_NOTIFICATIONS settings),
                 last_heartbeat := clock t\<rparr>))
      else (None, s))"

subsection \<open>The dispatcher\<close>

text \<open>
  The \<open>if\<close>/\<open>elif\<close> chain of \<open>sort_new_messages\<close>: which branch a message takes.
  \<open>message['data']\<close> and \<open>message['data']['type']\<close> raise on a missing key. The
  chain has no \<open>else\<close>: a message that fails all three tests is \<open>Unrouted\<close>.
\<close>

datatype route = ServerHandler | LedgerHandler | ValidationHandler | Unrouted

definition classify :: "message \<Rightarrow> error + route" where
  "classify message =
     (case data message of
        None \<Rightarrow> Inl (KeyError ''data'')
      | Some d \<Rightarrow>
          if d ''result'' \<noteq> None then Inr ServerHandler
          else (case d ''type'' of
                  None \<Rightarrow> Inl (KeyError ''type'')
                | Some ty \<Rightarrow>
                    if py_eq ty (PStr ''ledgerClosed'') then Inr LedgerHandler
                    else if py_eq ty (PStr ''validationReceived'') then Inr ValidationHandler
                    else Inr Unrouted))"

definition sort_new_messages ::
  "collaborators \<Rightarrow> settings \<Rightarrow> tick \<Rightarrow> message \<Rightarrow> processor \<Rightarrow> error option \<times> processor" where
  "sort_new_messages ext settings t message s =
     (case classify message of
        Inl e \<Rightarrow> (Some e, s)
      | Inr ServerHandler \<Rightarrow>
          (case update_table_server ext (table_stock s) (notification_queue s) message of
             Inl e \<Rightarrow> (Some e, s)
           | Inr (stock, queue) \<Rightarrow> (None, s\<lparr>table_stock := stock, notification_queue := queue\<rparr>))
      | Inr LedgerHandler \<Rightarrow>
          (case update_table_ledger ext (table_stock s) message of
             Inl e \<Rightarrow> (Some e, s)
           | Inr stock \<Rightarrow> (None, s\<lparr>table_stock := stock\<rparr>))
      | Inr ValidationHandler \<Rightarrow>
          (case check_validations settings (localtime t) (val_keys s) (table_validator s)
                  (processed_validations s) message of
             (err, (keys, table, seen)) \<Rightarrow>
               (err, s\<lparr>val_keys := keys, table_validator := table,
                        processed_validations := seen\<rparr>))
      | Inr Unrouted \<Rightarrow> (None, s))"

subsection \<open>Start-up and the loop\<close>

definition generate_table_stock :: "pydict list \<Rightarrow> processor \<Rightarrow> processor" where
  "generate_table_stock stock s =
     s\<lparr>table_stock := map (\<lambda>server. server(''ws_connection_task'' := None)) stock\<rparr>"

definition generate_val_keys :: "processor \<Rightarrow> processor" where
  "generate_val_keys s =
     s\<lparr>val_keys :=
         val_keys s
           @ filter truthy
               (map (\<lambda>i. dget i ''master_key'') (table_validator s)
                  @ map (\<lambda>i. dget i ''validation_public_key'') (table_validator s))\<rparr>"

text \<open>The body of the \<open>try\<close>, after the message has been taken from the queue.\<close>

definition iteration ::
  "collaborators \<Rightarrow> settings \<Rightarrow> tick \<Rightarrow> message \<Rightarrow> processor \<Rightarrow> error option \<times> processor" where
  "iteration ext settings t message s =
     (case sort_new_messages ext settings t message s of
        (Some e, s1) \<Rightarrow> (Some e, s1)
      | (None, s1) \<Rightarrow>
          (case evaluate_forks ext settings t s1 of
             (Some e, s2) \<Rightarrow> (Some e, s2)
           | (None, s2) \<Rightarrow>
               (case process_console_output ext settings t s2 of
                  (Some e, s3) \<Rightarrow> (Some e, s3)
                | (None, s3) \<Rightarrow> heartbeat_message settings t s3)))"

text \<open>
  What \<open>await self.message_queue.get()\<close> yields: a message, or the cancellation or
  interrupt raised while the task waits.
\<close>

datatype delivery = Delivered message | Cancelled | Interrupted

text \<open>
  The three \<open>except\<close> clauses: the flag tells whether the loop breaks.
\<close>

fun handle_exception :: "error \<Rightarrow> message \<Rightarrow> processor \<Rightarrow> bool \<times> processor" where
  "handle_exception (KeyError k) message s =
     (False, s\<lparr>logged := logged s @ [UnexpectedMessage (KeyError k) message]\<rparr>)"
| "handle_exception CancelledError message s =
     (True, s\<lparr>logged := logged s @ [ProcessorStopped]\<rparr>)"
| "handle_exception KeyboardInterrupt message s =
     (True, s\<lparr>logged := logged s @ [ProcessorStopped]\<rparr>)"
| "handle_exception e message s =
     (False, s\<lparr>logged := logged s @ [UncaughtException e]\<rparr>)"

text \<open>
  The \<open>while True\<close> loop on the deliveries so far. The flag of the result is \<open>True\<close>
  when the loop has left through \<open>break\<close>, and \<open>False\<close> when it has handled every
  delivery and waits for the next one.
\<close>

fun process_loop ::
  "collaborators \<Rightarrow> settings \<Rightarrow> (tick \<times> delivery) list \<Rightarrow> processor \<Rightarrow> bool \<times> processor" where
  "process_loop ext settings [] s = (False, s)"
| "process_loop ext settings ((t, Cancelled) # rest) s =
     (True, s\<lparr>logged := logged s @ [ProcessorStopped]\<rparr>)"
| "process_loop ext settings ((t, Interrupted) # rest) s =
     (True, s\<lparr>logged := logged s @ [ProcessorStopped]\<rparr>)"
| "process_loop ext settings ((t, Delivered message) # rest) s =
     (case iteration ext settings t message s of
        (None, s') \<Rightarrow> process_loop ext settings rest s'
      | (Some e, s') \<Rightarrow>
          (case handle_exception e message s' of
             (True, s'') \<Rightarrow> (True, s'')
           | (False, s'') \<Rightarrow> process_loop ext settings rest s''))"

definition process_messages ::
  "collaborators \<Rightarrow> settings \<Rightarrow> pydict list \<Rightarrow> pydict list \<Rightarrow> (tick \<times> delivery) list
     \<Rightarrow> processor \<Rightarrow> bool \<times> processor" where
  "process_messages ext settings stock validators deliveries s =
     process_loop ext settings deliveries
       (generate_val_keys ((generate_table_stock stock s)\<lparr>table_validator := validators\<rparr>))"

subsection \<open>Predicates on deliveries and collaborators\<close>

text \<open>
  The exceptions of the clause \<open>except (asyncio.CancelledError, KeyboardInterrupt)\<close>,
  the deliveries that hand over a message, and the collaborators that never raise a
  cancellation or an interrupt of their own.
\<close>

fun is_interrupt :: "error \<Rightarrow> bool" where
  "is_interrupt CancelledError = True"
| "is_interrupt KeyboardInterrupt = True"
| "is_interrupt _ = False"

fun is_message :: "delivery \<Rightarrow> bool" where
  "is_message (Delivered m) = True"
| "is_message _ = False"

definition uninterrupted :: "collaborators \<Rightarrow> bool" where
  "uninterrupted ext =
     ((\<forall>stock queue m e. update_table_server ext stock queue m = Inl e \<longrightarrow> \<not> is_interrupt e)
      \<and> (\<forall>stock m e. update_table_ledger ext stock m = Inl e \<longrightarrow> \<not> is_interrupt e)
      \<and> (\<forall>settings stock validators queue e.
            fork_checker ext settings stock validators queue = Inl e \<longrightarrow> \<not> is_interrupt e)
      \<and> (\<forall>stock e. print_table_server ext stock = Some e \<longrightarrow> \<not> is_interrupt e)
      \<and> (\<forall>table e. print_table_validation ext table = Some e \<longrightarrow> \<not> is_interrupt e))"

section \<open>Example data\<close>

text \<open>
  The roster, messages and settings used to evaluate the functions on concrete
  inputs: a validator with master key \<open>M1\<close> and ephemeral key \<open>E1\<close>, validation
  messages signed by a master key, and a configuration with a given ceiling.
\<close>

definition validator_M1 :: pydict where
  "validator_M1 =
     [''master_key'' \<mapsto> PStr ''M1'', ''validation_public_key'' \<mapsto> PStr ''E1'',
      ''ledger_index'' \<mapsto> PInt 100]"

definition vote_data :: "string \<Rightarrow> string \<Rightarrow> int \<Rightarrow> pydict" where
  "vote_data mk sg idx =
     [''type'' \<mapsto> PStr ''validationReceived'', ''master_key'' \<mapsto> PStr mk,
      ''signature'' \<mapsto> PStr sg, ''ledger_index'' \<mapsto> PInt idx]"

definition vote :: "string \<Rightarrow> string \<Rightarrow> int \<Rightarrow> message" where
  "vote mk sg idx = \<lparr>data = Some (vote_data mk sg idx), server_url = Some (PStr ''wss://s1'')\<rparr>"

definition config :: "int \<Rightarrow> bool \<Rightarrow> settings" where
  "config cap dedup =
     \<lparr>PROCESSED_VAL_MAX = cap, REMOVE_DUP_VALIDATORS = dedup, FORK_CHECK_FREQ = 600,
      CONSOLE_OUT = False, CONSOLE_REFRESH_TIME = 5, ADMIN_HEARTBEAT = True,
      HEARTBEAT_INTERVAL = 60, ADMIN_NOTIFICATIONS = [PStr ''+15550100'', PStr ''+15550101'']\<rparr>"

text \<open>
  A validator whose ephemeral key is not known yet, a stream message of a type the
  dispatcher has no branch for, a message with neither \<open>result\<close> nor \<open>type\<close>, a
  ledger-close message, collaborators that return at once and leave the tables
  as they are (the fork checker reporting the mode \<open>full\<close>), and the clock at a given
  instant.
\<close>

definition validator_M2 :: pydict where
  "validator_M2 =
     [''master_key'' \<mapsto> PStr ''M2'', ''validation_public_key'' \<mapsto> PNone,
      ''ledger_index'' \<mapsto> PInt 7]"

definition status_message :: message where
  "status_message =
     \<lparr>data = Some [''type'' \<mapsto> PStr ''serverStatus''], server_url = Some (PStr ''wss://s1'')\<rparr>"

definition malformed_message :: message where
  "malformed_message = \<lparr>data = Some [''ledger_index'' \<mapsto> PInt 5], server_url = None\<rparr>"

definition ledger_message :: message where
  "ledger_message =
     \<lparr>data = Some [''type'' \<mapsto> PStr ''ledgerClosed''], server_url = Some (PStr ''wss://s1'')\<rparr>"

definition quiet :: collaborators where
  "quiet =
     \<lparr>update_table_server = (\<lambda>stock queue m. Inr (stock, queue)),
      update_table_ledger = (\<lambda>stock m. Inr stock),
      fork_checker = (\<lambda>settings stock validators queue. Inr (([''full''], stock, validators), queue)),
      print_table_server = (\<lambda>stock. None),
      print_table_validation = (\<lambda>table. None)\<rparr>"

definition instant :: "real \<Rightarrow> tick" where
  "instant x = \<lparr>clock = x, localtime = ''local'', gmtime = ''utc''\<rparr>"

section \<open>Membership and the processed-signature log\<close>

lemma py_eq_refl [simp]: "py_eq x x"
  by (cases x) auto

lemma py_in_iff: "py_in x xs \<longleftrightarrow> (\<exists>e \<in> set xs. py_eq e x)"
  by (induction xs) auto

lemma py_in_append [simp]: "py_in x (xs @ ys) = (py_in x xs \<or> py_in x ys)"
  by (induction xs) auto

lemma py_in_drop_last:
  assumes "j < length xs"
  shows "py_in (last xs) (drop j xs)"
proof -
  from assms have ne: "drop j xs \<noteq> []" by simp
  have "last (drop j xs) = last xs" using assms by (simp add: last_drop)
  with ne have "last xs \<in> set (drop j xs)" by (metis last_in_set)
  then show ?thesis unfolding py_in_iff using py_eq_refl by blast
qed

text \<open>The signature appended last survives the prune, whatever the ceiling.\<close>

lemma del_prefix_keeps_last:
  assumes "PROCESSED_VAL_MAX settings \<le> int (length pv) + 1"
  shows "py_in sg (del_prefix (pv @ [sg]) (int_half (PROCESSED_VAL_MAX settings)))"
proof -
  define k where "k = int_half (PROCESSED_VAL_MAX settings)"
  define n where "n = int (length (pv @ [sg]))"
  define stop where "stop = (if k < 0 then max 0 (n + k) else min k n)"
  have "k \<le> int (length pv)" using assms by (auto simp: int_half_def k_def)
  then have "nat stop < length (pv @ [sg])" by (auto simp: stop_def n_def)
  from py_in_drop_last[OF this] have "py_in sg (drop (nat stop) (pv @ [sg]))" by simp
  then show ?thesis
    unfolding del_prefix_def Let_def stop_def n_def k_def .
qed

lemma clean_validations_keeps_last:
  "clean_validations settings vk tb (pv @ [sg]) = (vk', tb', pv') \<Longrightarrow> py_in sg pv'"
  using del_prefix_keeps_last[of settings pv sg]
  by (auto simp: clean_validations_def Let_def split: if_splits prod.splits)

lemma process_validations_logs:
  assumes "process_validations settings now vk tb pv m = (None, (vk', tb', pv'))"
    and "data m = Some d" and "d ''signature'' = Some sg"
  shows "py_in sg pv'"
  using assms clean_validations_keeps_last
  by (auto simp: process_validations_def split: option.splits prod.splits)

lemma clean_validations_log_bound:
  assumes "2 \<le> PROCESSED_VAL_MAX settings"
    and "int (length pv) \<le> PROCESSED_VAL_MAX settings"
  shows "int (length (snd (snd (clean_validations settings vk tb (pv @ [sg])))))
           \<le> PROCESSED_VAL_MAX settings"
  using assms
  by (auto simp: clean_validations_def del_prefix_def int_half_def Let_def split: prod.splits)

lemma clean_validations_prune:
  assumes "2 \<le> PROCESSED_VAL_MAX settings"
    and "int (length pv) + 1 = PROCESSED_VAL_MAX settings"
  shows "snd (snd (clean_validations settings vk tb (pv @ [sg])))
           = drop (nat (PROCESSED_VAL_MAX settings div 2)) (pv @ [sg])"
  using assms
  by (auto simp: clean_validations_def del_prefix_def int_half_def Let_def min_def
           split: prod.splits)

lemma check_validations_log_bound:
  assumes "2 \<le> PROCESSED_VAL_MAX settings"
    and "int (length pv) \<le> PROCESSED_VAL_MAX settings"
  shows "int (length (snd (snd (snd (check_validations settings now vk tb pv m)))))
           \<le> PROCESSED_VAL_MAX settings"
  using assms clean_validations_log_bound[OF assms]
  by (auto simp: check_validations_def process_validations_def split: option.splits prod.splits)

lemma validation_stream_log_bound:
  assumes "2 \<le> PROCESSED_VAL_MAX settings"
  shows "int (length (snd (snd st))) \<le> PROCESSED_VAL_MAX settings \<Longrightarrow>
         \<forall>st' \<in> set (validation_stream settings st msgs).
            int (length (snd (snd st'))) \<le> PROCESSED_VAL_MAX settings"
proof (induction msgs arbitrary: st)
  case Nil then show ?case by simp
next
  case (Cons a msgs)
  obtain now m where a: "a = (now, m)" by (cases a)
  obtain vk tb pv where st: "st = (vk, tb, pv)" by (cases st)
  let ?st' = "snd (check_validations settings now vk tb pv m)"
  have b: "int (length (snd (snd ?st'))) \<le> PROCESSED_VAL_MAX settings"
    using check_validations_log_bound[OF assms, of pv now vk tb m] Cons.prems st by simp
  from Cons.IH[OF b] b show ?case by (simp add: a st Let_def)
qed

lemma check_validations_prune:
  assumes max: "2 \<le> PROCESSED_VAL_MAX settings"
    and ret: "check_validations settings now vk tb pv m = (None, (vk', tb', pv'))"
    and d: "data m = Some d" and scope: "in_scope vk d"
    and sg: "d ''signature'' = Some sg" and new: "\<not> py_in sg pv"
    and full: "int (length pv) + 1 = PROCESSED_VAL_MAX settings"
  shows "pv' = drop (nat (PROCESSED_VAL_MAX settings div 2)) (pv @ [sg])"
    and "int (length pv') \<le> PROCESSED_VAL_MAX settings div 2 + 1"
proof -
  from ret d scope sg new
  have "\<exists>tb1. clean_validations settings vk tb1 (pv @ [sg]) = (vk', tb', pv')"
    by (auto simp: check_validations_def process_validations_def split: option.splits prod.splits)
  then obtain tb1 where "clean_validations settings vk tb1 (pv @ [sg]) = (vk', tb', pv')" ..
  then have "pv' = snd (snd (clean_validations settings vk tb1 (pv @ [sg])))"
    by (metis snd_conv)
  with clean_validations_prune[OF max full]
  show p: "pv' = drop (nat (PROCESSED_VAL_MAX settings div 2)) (pv @ [sg])" by simp
  show "int (length pv') \<le> PROCESSED_VAL_MAX settings div 2 + 1"
    unfolding p using max full by auto
qed

text \<open>The definitions unfolded when a handler is evaluated on the example data.\<close>

lemmas handler_defs =
  check_validations_def process_validations_def update_table_validator_def
  clean_validations_def del_dup_validators_def in_scope_def dget_def Let_def
  del_prefix_def int_half_def match_validator_def match_ephemeral_def
  vote_def vote_data_def config_def validator_M1_def

lemmas record_defs =
  update_validator_def merge_fields_def vote_data_def validator_M1_def validator_M2_def

lemmas loop_defs =
  iteration_def sort_new_messages_def classify_def evaluate_forks_def
  process_console_output_def heartbeat_message_def quiet_def instant_def init_def

section \<open>The update loop\<close>

text \<open>
  When the loop returns without raising, every record has been tested, and exactly the
  matching ones have been merged and stamped.
\<close>

lemma update_loop_ok:
  "update_loop now d table = (None, table') \<Longrightarrow>
   table' = map (\<lambda>v. if match_validator d v = Inr True then update_validator now d v else v) table
   \<and> (\<forall>v \<in> set table. \<exists>hit. match_validator d v = Inr hit)"
proof (induction table arbitrary: table')
  case Nil then show ?case by simp
next
  case (Cons v vs)
  then show ?case
    by (auto split: sum.splits prod.splits)
qed

lemma update_table_validator_ok:
  assumes "update_table_validator now table m = (None, table')"
    and "data m = Some d"
  shows "table' = map (\<lambda>v. if match_validator d v = Inr True then update_validator now d v else v) table"
    and "\<And>v. v \<in> set table \<Longrightarrow> \<exists>hit. match_validator d v = Inr hit"
  using assms update_loop_ok[of now d table table']
  by (auto simp: update_table_validator_def)

section \<open>Bounded growth of the processed-signature log\<close>

text \<open>
  Claim C1, as amended. With a ceiling of at least 2 and a log that starts no longer
  than the ceiling (the processor starts with the empty log), the log is never longer
  than \<open>PROCESSED_VAL_MAX\<close> after any message of any sequence fed to the validation
  handler; and when a message is inserted that brings the length to the ceiling, the
  oldest \<open>PROCESSED_VAL_MAX div 2\<close> signatures are deleted at once, which leaves at most
  \<open>PROCESSED_VAL_MAX div 2 + 1\<close>.
\<close>

theorem processed_log_bounded:
  assumes "2 \<le> PROCESSED_VAL_MAX settings"
    and "int (length seen) \<le> PROCESSED_VAL_MAX settings"
  shows "(\<forall>st \<in> set (validation_stream settings (ks, tbl, seen) msgs).
            int (length (snd (snd st))) \<le> PROCESSED_VAL_MAX settings)
         \<and> (check_validations settings now ks tbl seen m = (None, (ks', tbl', seen'))
              \<and> data m = Some d \<and> in_scope ks d \<and> d ''signature'' = Some sg
              \<and> \<not> py_in sg seen \<and> int (length seen) + 1 = PROCESSED_VAL_MAX settings
            \<longrightarrow> seen' = drop (nat (PROCESSED_VAL_MAX settings div 2)) (seen @ [sg])
                \<and> int (length seen') \<le> PROCESSED_VAL_MAX settings div 2 + 1)"
proof (intro conjI impI)
  show "\<forall>st \<in> set (validation_stream settings (ks, tbl, seen) msgs).
          int (length (snd (snd st))) \<le> PROCESSED_VAL_MAX settings"
    using validation_stream_log_bound[OF assms(1), of "(ks, tbl, seen)" msgs] assms(2) by simp
next
  assume h: "check_validations settings now ks tbl seen m = (None, (ks', tbl', seen'))
              \<and> data m = Some d \<and> in_scope ks d \<and> d ''signature'' = Some sg
              \<and> \<not> py_in sg seen \<and> int (length seen) + 1 = PROCESSED_VAL_MAX settings"
  then show "seen' = drop (nat (PROCESSED_VAL_MAX settings div 2)) (seen @ [sg])"
    using check_validations_prune(1)[OF assms(1), of now ks tbl seen m ks' tbl' seen' d sg] by blast
  from h show "int (length seen') \<le> PROCESSED_VAL_MAX settings div 2 + 1"
    using check_validations_prune(2)[OF assms(1), of now ks tbl seen m ks' tbl' seen' d sg] by blast
qed

text \<open>
  The theorem at ceiling 4 with three signatures logged: the fourth insertion prunes
  the log to the last two.
\<close>

theorem processed_log_bounded_witness:
  "2 \<le> PROCESSED_VAL_MAX (config 4 False)
   \<and> int (length [PStr ''S1'', PStr ''S2'', PStr ''S3'']) \<le> PROCESSED_VAL_MAX (config 4 False)
   \<and> int (length (snd (snd (last (validation_stream (config 4 False)
         ([PStr ''M1'', PStr ''E1''], [validator_M1], [PStr ''S1'', PStr ''S2'', PStr ''S3''])
         [(''t4'', vote ''M1'' ''S4'' 104), (''t5'', vote ''M1'' ''S5'' 105)])))))
       \<le> PROCESSED_VAL_MAX (config 4 False)
   \<and> check_validations (config 4 False) ''t4'' [PStr ''M1'', PStr ''E1''] [validator_M1]
        [PStr ''S1'', PStr ''S2'', PStr ''S3''] (vote ''M1'' ''S4'' 104)
       = (None, [PStr ''M1'', PStr ''E1''],
          [update_validator ''t4'' (vote_data ''M1'' ''S4'' 104) validator_M1],
          [PStr ''S3'', PStr ''S4''])
   \<and> [PStr ''S3'', PStr ''S4'']
       = drop (nat (PROCESSED_VAL_MAX (config 4 False) div 2))
           ([PStr ''S1'', PStr ''S2'', PStr ''S3''] @ [PStr ''S4''])
   \<and> int (length [PStr ''S3'', PStr ''S4'']) \<le> PROCESSED_VAL_MAX (config 4 False) div 2 + 1"
proof -
  let ?ks = "[PStr ''M1'', PStr ''E1'']"
  let ?seen = "[PStr ''S1'', PStr ''S2'', PStr ''S3'']"
  let ?msgs = "[(''t4'', vote ''M1'' ''S4'' 104), (''t5'', vote ''M1'' ''S5'' 105)]"
  have c: "2 \<le> PROCESSED_VAL_MAX (config 4 False)" by (simp add: config_def)
  have e: "int (length ?seen) \<le> PROCESSED_VAL_MAX (config 4 False)"
    by (simp add: config_def)
  have step: "check_validations (config 4 False) ''t4'' ?ks [validator_M1] ?seen
                (vote ''M1'' ''S4'' 104)
       = (None, ?ks, [update_validator ''t4'' (vote_data ''M1'' ''S4'' 104) validator_M1],
          [PStr ''S3'', PStr ''S4''])"
    by (simp add: handler_defs)
  have pre: "data (vote ''M1'' ''S4'' 104) = Some (vote_data ''M1'' ''S4'' 104)
      \<and> in_scope ?ks (vote_data ''M1'' ''S4'' 104)
      \<and> vote_data ''M1'' ''S4'' 104 ''signature'' = Some (PStr ''S4'')
      \<and> \<not> py_in (PStr ''S4'') ?seen
      \<and> int (length ?seen) + 1 = PROCESSED_VAL_MAX (config 4 False)"
    by (simp add: handler_defs)
  have ne: "validation_stream (config 4 False) (?ks, [validator_M1], ?seen) ?msgs \<noteq> []"
    by (simp add: Let_def)
  note inst = processed_log_bounded[OF c e, of ?ks "[validator_M1]" ?msgs "''t4''"
      "vote ''M1'' ''S4'' 104" ?ks
      "[update_validator ''t4'' (vote_data ''M1'' ''S4'' 104) validator_M1]"
      "[PStr ''S3'', PStr ''S4'']" "vote_data ''M1'' ''S4'' 104" "PStr ''S4''"]
  from inst last_in_set[OF ne]
  have 1: "int (length (snd (snd (last (validation_stream (config 4 False)
             (?ks, [validator_M1], ?seen) ?msgs)))))
       \<le> PROCESSED_VAL_MAX (config 4 False)"
    by blast
  from inst step pre
  have 2: "[PStr ''S3'', PStr ''S4'']
       = drop (nat (PROCESSED_VAL_MAX (config 4 False) div 2)) (?seen @ [PStr ''S4''])
     \<and> int (length [PStr ''S3'', PStr ''S4'']) \<le> PROCESSED_VAL_MAX (config 4 False) div 2 + 1"
    by blast
  from c e step 1 2 show ?thesis by blast
qed

text \<open>
  Without the lower bound on the ceiling the log outgrows it: at ceiling 1 the prune
  deletes \<open>int(0.5) = 0\<close> entries, and the second message leaves two signatures.
\<close>

theorem processed_log_bounded_counterexample:
  "PROCESSED_VAL_MAX (config 1 False)
     < int (length (snd (snd (validation_stream (config 1 False)
         ([PStr ''M1'', PStr ''E1''], [validator_M1], [])
         [(''t1'', vote ''M1'' ''S1'' 101), (''t2'', vote ''M1'' ''S2'' 102)] ! 1))))"
  by (simp add: handler_defs update_validator_def merge_fields_def)

section \<open>The validation handler\<close>

text \<open>
  Claim C2. When the handler has accepted an in-scope message and returned, the
  message's signature is in the log, and a second application with the same signature
  (the same message or another one carrying it, at any later time) changes neither the
  key list, nor the validator table, nor the log.
\<close>

theorem check_validations_idempotent:
  assumes first: "check_validations settings now ks tbl seen m = (None, (ks', tbl', seen'))"
    and d: "data m = Some d"
    and scope: "in_scope ks d"
    and d2: "data m2 = Some d2"
    and same: "d2 ''signature'' = d ''signature''"
  shows "(\<exists>sg. d ''signature'' = Some sg \<and> py_in sg seen')
         \<and> snd (check_validations settings now2 ks' tbl' seen' m2) = (ks', tbl', seen')"
proof -
  from first d scope obtain sg where sg: "d ''signature'' = Some sg"
    by (auto simp: check_validations_def split: option.splits)
  have logged: "py_in sg seen'"
  proof (cases "py_in sg seen")
    case True
    with first d scope sg show ?thesis by (simp add: check_validations_def)
  next
    case False
    with first d scope sg
    have "process_validations settings now ks tbl seen m = (None, (ks', tbl', seen'))"
      by (simp add: check_validations_def)
    from process_validations_logs[OF this d sg] show ?thesis .
  qed
  have "snd (check_validations settings now2 ks' tbl' seen' m2) = (ks', tbl', seen')"
    using d2 same sg logged
    by (simp add: check_validations_def split: option.splits)
  with sg logged show ?thesis by simp
qed

text \<open>
  The end-to-end scenario: the roster holds \<open>M1\<close>; the first message moves its ledger
  index to 101 and logs \<open>S1\<close>; the same message again changes nothing.
\<close>

theorem check_validations_idempotent_witness:
  "check_validations (config 10 False) ''t1'' [PStr ''M1'', PStr ''E1''] [validator_M1] []
       (vote ''M1'' ''S1'' 101)
     = (None, [PStr ''M1'', PStr ''E1''],
        [update_validator ''t1'' (vote_data ''M1'' ''S1'' 101) validator_M1], [PStr ''S1''])
   \<and> update_validator ''t1'' (vote_data ''M1'' ''S1'' 101) validator_M1 ''ledger_index''
       = Some (PInt 101)
   \<and> snd (check_validations (config 10 False) ''t2'' [PStr ''M1'', PStr ''E1'']
        [update_validator ''t1'' (vote_data ''M1'' ''S1'' 101) validator_M1] [PStr ''S1'']
        (vote ''M1'' ''S1'' 101))
     = ([PStr ''M1'', PStr ''E1''],
        [update_validator ''t1'' (vote_data ''M1'' ''S1'' 101) validator_M1], [PStr ''S1''])"
proof -
  have first: "check_validations (config 10 False) ''t1'' [PStr ''M1'', PStr ''E1'']
       [validator_M1] [] (vote ''M1'' ''S1'' 101)
     = (None, [PStr ''M1'', PStr ''E1''],
        [update_validator ''t1'' (vote_data ''M1'' ''S1'' 101) validator_M1], [PStr ''S1''])"
    by (simp add: handler_defs)
  have d: "data (vote ''M1'' ''S1'' 101) = Some (vote_data ''M1'' ''S1'' 101)"
    by (simp add: vote_def)
  have scope: "in_scope [PStr ''M1'', PStr ''E1''] (vote_data ''M1'' ''S1'' 101)"
    by (simp add: handler_defs)
  have idx: "update_validator ''t1'' (vote_data ''M1'' ''S1'' 101) validator_M1 ''ledger_index''
       = Some (PInt 101)"
    by (simp add: update_validator_def merge_fields_def vote_data_def validator_M1_def)
  from check_validations_idempotent[OF first d scope d refl, of "''t2''"] first idx
  show ?thesis by blast
qed

text \<open>
  Claim C3. A message whose \<open>master_key\<close> value and \<open>validation_public_key\<close> value
  are both outside the tracked key list leaves the key list, every validator record
  and the log as they were.
\<close>

theorem check_validations_out_of_scope:
  assumes "data m = Some d"
    and "\<not> py_in (dget d ''master_key'') ks"
    and "\<not> py_in (dget d ''validation_public_key'') ks"
  shows "snd (check_validations settings now ks tbl seen m) = (ks, tbl, seen)"
  using assms
  by (simp add: check_validations_def in_scope_def split: option.splits)

text \<open>A message from an unknown master key, against the roster of the scenario.\<close>

theorem check_validations_out_of_scope_witness:
  "data (vote ''UNKNOWN'' ''S9'' 300) = Some (vote_data ''UNKNOWN'' ''S9'' 300)
   \<and> \<not> py_in (dget (vote_data ''UNKNOWN'' ''S9'' 300) ''master_key'') [PStr ''M1'', PStr ''E1'']
   \<and> \<not> py_in (dget (vote_data ''UNKNOWN'' ''S9'' 300) ''validation_public_key'')
          [PStr ''M1'', PStr ''E1'']
   \<and> snd (check_validations (config 10 True) ''t3'' [PStr ''M1'', PStr ''E1''] [validator_M1]
        [PStr ''S1''] (vote ''UNKNOWN'' ''S9'' 300))
     = ([PStr ''M1'', PStr ''E1''], [validator_M1], [PStr ''S1''])"
proof -
  have d: "data (vote ''UNKNOWN'' ''S9'' 300) = Some (vote_data ''UNKNOWN'' ''S9'' 300)"
    by (simp add: vote_def)
  have a: "\<not> py_in (dget (vote_data ''UNKNOWN'' ''S9'' 300) ''master_key'')
              [PStr ''M1'', PStr ''E1'']"
    by (simp add: vote_data_def dget_def)
  have b: "\<not> py_in (dget (vote_data ''UNKNOWN'' ''S9'' 300) ''validation_public_key'')
              [PStr ''M1'', PStr ''E1'']"
    by (simp add: vote_data_def dget_def)
  from check_validations_out_of_scope[OF d a b, of "config 10 True" "''t3''" "[validator_M1]"
      "[PStr ''S1'']"] d a b
  show ?thesis by blast
qed

section \<open>Merging a message into the table\<close>

text \<open>
  Claim C4. After \<open>update_table_validator\<close> has returned, a record that the message
  matches keeps every field \<open>a\<close> the message does not specify, has the message's value
  in every field \<open>b\<close> of its own that the message specifies, and carries the current
  time in \<open>time_updated\<close>.
\<close>

theorem update_table_validator_merge:
  assumes ret: "update_table_validator now table m = (None, table')"
    and d: "data m = Some d"
    and i: "i < length table"
    and hit: "match_validator d (table ! i) = Inr True"
    and A: "d a = None" "a \<noteq> ''time_updated''"
    and B: "(table ! i) b \<noteq> None" "d b = Some new" "b \<noteq> ''time_updated''"
  shows "length table' = length table
         \<and> (table' ! i) a = (table ! i) a
         \<and> (table' ! i) b = Some new
         \<and> (table' ! i) ''time_updated'' = Some (PStr now)"
proof -
  from update_table_validator_ok(1)[OF ret d] i hit
  have "length table' = length table" and "table' ! i = update_validator now d (table ! i)"
    by simp_all
  with A B show ?thesis
    by (auto simp: update_validator_def merge_fields_def split: option.splits)
qed

text \<open>
  The record of \<open>M1\<close> and a message giving a new ledger index: the ephemeral key
  stays, the ledger index is the message's, the time stamp is set.
\<close>

theorem update_table_validator_merge_witness:
  "update_table_validator ''t1'' [validator_M1] (vote ''M1'' ''S1'' 101)
     = (None, [update_validator ''t1'' (vote_data ''M1'' ''S1'' 101) validator_M1])
   \<and> match_validator (vote_data ''M1'' ''S1'' 101) ([validator_M1] ! 0) = Inr True
   \<and> vote_data ''M1'' ''S1'' 101 ''validation_public_key'' = None
   \<and> vote_data ''M1'' ''S1'' 101 ''ledger_index'' = Some (PInt 101)
   \<and> ([update_validator ''t1'' (vote_data ''M1'' ''S1'' 101) validator_M1] ! 0)
        ''validation_public_key'' = Some (PStr ''E1'')
   \<and> ([update_validator ''t1'' (vote_data ''M1'' ''S1'' 101) validator_M1] ! 0)
        ''ledger_index'' = Some (PInt 101)
   \<and> ([update_validator ''t1'' (vote_data ''M1'' ''S1'' 101) validator_M1] ! 0)
        ''time_updated'' = Some (PStr ''t1'')"
proof -
  let ?d = "vote_data ''M1'' ''S1'' 101"
  have ret: "update_table_validator ''t1'' [validator_M1] (vote ''M1'' ''S1'' 101)
     = (None, [update_validator ''t1'' ?d validator_M1])"
    by (simp add: handler_defs)
  have d: "data (vote ''M1'' ''S1'' 101) = Some ?d" by (simp add: vote_def)
  have i: "0 < length [validator_M1]" by simp
  have hit: "match_validator ?d ([validator_M1] ! 0) = Inr True" by (simp add: handler_defs)
  have A: "?d ''validation_public_key'' = None" "''validation_public_key'' \<noteq> ''time_updated''"
    by (simp_all add: vote_data_def)
  have B: "([validator_M1] ! 0) ''ledger_index'' \<noteq> None" "?d ''ledger_index'' = Some (PInt 101)"
      "''ledger_index'' \<noteq> ''time_updated''"
    by (simp_all add: vote_data_def validator_M1_def)
  have v: "([validator_M1] ! 0) ''validation_public_key'' = Some (PStr ''E1'')"
    by (simp add: validator_M1_def)
  from update_table_validator_merge[OF ret d i hit A B] ret hit A(1) B(2) v
  show ?thesis by simp
qed

text \<open>
  Claim C10. A message without \<open>validation_public_key\<close> compares \<open>None\<close> with each
  stored ephemeral key, so after \<open>update_table_validator\<close> has returned every record
  whose own \<open>validation_public_key\<close> is \<open>None\<close> or missing has been merged and
  stamped, whatever its master key.
\<close>

theorem update_table_validator_absent_ephemeral:
  assumes ret: "update_table_validator now table m = (None, table')"
    and d: "data m = Some d"
    and novpk: "d ''validation_public_key'' = None"
    and i: "i < length table"
    and rec: "dget (table ! i) ''validation_public_key'' = PNone"
  shows "table' ! i = update_validator now d (table ! i)
         \<and> (table' ! i) ''time_updated'' = Some (PStr now)"
proof -
  from i have mem: "table ! i \<in> set table" by simp
  from update_table_validator_ok(2)[OF ret d mem]
  obtain hit where h: "match_validator d (table ! i) = Inr hit" by blast
  have "hit"
    using h novpk rec
    by (auto simp: match_validator_def match_ephemeral_def dget_def
             split: if_splits option.splits)
  with h update_table_validator_ok(1)[OF ret d] i
  have "table' ! i = update_validator now d (table ! i)" by simp
  then show ?thesis by (simp add: update_validator_def)
qed

text \<open>
  A message of \<open>M1\<close> without ephemeral key overwrites the record of \<open>M2\<close>, whose
  ephemeral key is \<open>None\<close>: its ledger index becomes the message's.
\<close>

theorem update_table_validator_absent_ephemeral_witness:
  "update_table_validator ''t1'' [validator_M1, validator_M2] (vote ''M1'' ''S1'' 101)
     = (None, [update_validator ''t1'' (vote_data ''M1'' ''S1'' 101) validator_M1,
               update_validator ''t1'' (vote_data ''M1'' ''S1'' 101) validator_M2])
   \<and> vote_data ''M1'' ''S1'' 101 ''validation_public_key'' = None
   \<and> dget ([validator_M1, validator_M2] ! 1) ''validation_public_key'' = PNone
   \<and> dget ([validator_M1, validator_M2] ! 1) ''master_key'' = PStr ''M2''
   \<and> dget (vote_data ''M1'' ''S1'' 101) ''master_key'' = PStr ''M1''
   \<and> [update_validator ''t1'' (vote_data ''M1'' ''S1'' 101) validator_M1,
       update_validator ''t1'' (vote_data ''M1'' ''S1'' 101) validator_M2] ! 1
      = update_validator ''t1'' (vote_data ''M1'' ''S1'' 101) ([validator_M1, validator_M2] ! 1)
   \<and> ([update_validator ''t1'' (vote_data ''M1'' ''S1'' 101) validator_M1,
       update_validator ''t1'' (vote_data ''M1'' ''S1'' 101) validator_M2] ! 1) ''time_updated''
      = Some (PStr ''t1'')
   \<and> update_validator ''t1'' (vote_data ''M1'' ''S1'' 101) validator_M2 ''ledger_index''
      = Some (PInt 101)"
proof -
  let ?d = "vote_data ''M1'' ''S1'' 101"
  have ret: "update_table_validator ''t1'' [validator_M1, validator_M2] (vote ''M1'' ''S1'' 101)
     = (None, [update_validator ''t1'' ?d validator_M1, update_validator ''t1'' ?d validator_M2])"
    by (simp add: handler_defs validator_M2_def)
  have d: "data (vote ''M1'' ''S1'' 101) = Some ?d" by (simp add: vote_def)
  have novpk: "?d ''validation_public_key'' = None" by (simp add: vote_data_def)
  have i: "1 < length [validator_M1, validator_M2]" by simp
  have rec: "dget ([validator_M1, validator_M2] ! 1) ''validation_public_key'' = PNone"
    by (simp add: dget_def validator_M2_def)
  have keys: "dget ([validator_M1, validator_M2] ! 1) ''master_key'' = PStr ''M2''"
      "dget ?d ''master_key'' = PStr ''M1''"
    by (simp_all add: dget_def validator_M2_def vote_data_def)
  have idx: "update_validator ''t1'' ?d validator_M2 ''ledger_index'' = Some (PInt 101)"
    by (simp add: record_defs)
  from update_table_validator_absent_ephemeral[OF ret d novpk i rec] ret novpk rec keys idx
  show ?thesis by blast
qed

section \<open>Duplicate removal\<close>

text \<open>
  What the pass does guarantee: the returned key list is the list of master keys of
  the kept records, every record of the table has its master key in it, and no key
  occurs in it twice. Here a record without master key has the key \<open>None\<close>.
\<close>

lemma py_eq_sym: "py_eq a b = py_eq b a"
  by (cases a; cases b) auto

lemma del_dup_loop_keys:
  "del_dup_loop table ks tn = (ks', tn') \<Longrightarrow>
   ks = map (\<lambda>v. dget v ''master_key'') tn \<Longrightarrow>
   ks' = map (\<lambda>v. dget v ''master_key'') tn'"
  by (induction table ks tn rule: del_dup_loop.induct) (auto simp: Let_def split: if_splits)

lemma del_dup_loop_grows:
  "del_dup_loop table ks tn = (ks', tn') \<Longrightarrow> py_in k ks \<Longrightarrow> py_in k ks'"
  by (induction table ks tn rule: del_dup_loop.induct) (auto simp: Let_def split: if_splits)

lemma del_dup_loop_covers:
  "del_dup_loop table ks tn = (ks', tn') \<Longrightarrow> v \<in> set table \<Longrightarrow>
   py_in (dget v ''master_key'') ks'"
proof (induction table ks tn rule: del_dup_loop.induct)
  case (1 ks tn)
  then show ?case by simp
next
  case (2 validator rest ks tn)
  show ?case
  proof (cases "py_in (dget validator ''master_key'') ks")
    case True
    with 2 show ?thesis by (auto simp: Let_def dest: del_dup_loop_grows)
  next
    case False
    with 2 show ?thesis
      by (auto simp: Let_def dest: del_dup_loop_grows[where k = "dget validator ''master_key''"])
  qed
qed

lemma del_dup_loop_once:
  "del_dup_loop table ks tn = (ks', tn') \<Longrightarrow>
   (\<forall>i < length ks. \<not> py_in (ks ! i) (take i ks)) \<Longrightarrow>
   (\<forall>i < length ks'. \<not> py_in (ks' ! i) (take i ks'))"
proof (induction table ks tn rule: del_dup_loop.induct)
  case (1 ks tn)
  then show ?case by simp
next
  case (2 validator rest ks tn)
  show ?case
  proof (cases "py_in (dget validator ''master_key'') ks")
    case True
    with 2 show ?thesis by (simp add: Let_def)
  next
    case False
    have "\<forall>i < length (ks @ [dget validator ''master_key'']).
            \<not> py_in ((ks @ [dget validator ''master_key'']) ! i)
                 (take i (ks @ [dget validator ''master_key'']))"
      using 2(4) False by (auto simp: nth_append less_Suc_eq)
    with 2 False show ?thesis by (simp add: Let_def)
  qed
qed

lemma del_dup_validators_keeps_master_keys:
  assumes "del_dup_validators table = (ks, kept)"
  shows "ks = map (\<lambda>v. dget v ''master_key'') kept"
    and "\<And>v. v \<in> set table \<Longrightarrow> py_in (dget v ''master_key'') ks"
    and "\<And>i. i < length ks \<Longrightarrow> \<not> py_in (ks ! i) (take i ks)"
  using assms del_dup_loop_keys[of table "[]" "[]" ks kept]
    del_dup_loop_covers[of table "[]" "[]" ks kept]
    del_dup_loop_once[of table "[]" "[]" ks kept]
  by (auto simp: del_dup_validators_def)

text \<open>
  Claim C5 says that records without a master key are always kept. The code takes
  \<open>None\<close> for a key like any other: of two records whose master key is \<open>None\<close> the
  second is dropped, and \<open>None\<close> enters the returned key list.
\<close>

theorem del_dup_validators_drops_keyless:
  "del_dup_validators
     [[''master_key'' \<mapsto> PNone, ''validation_public_key'' \<mapsto> PStr ''E7''],
      [''master_key'' \<mapsto> PNone, ''validation_public_key'' \<mapsto> PStr ''E8'']]
   = ([PNone], [[''master_key'' \<mapsto> PNone, ''validation_public_key'' \<mapsto> PStr ''E7'']])"
  by (simp add: del_dup_validators_def dget_def)

text \<open>
  At start-up \<open>generate_val_keys\<close> tracks the master key and the ephemeral key of
  every record, leaving out the ones that are \<open>None\<close> or empty.
\<close>

lemma py_in_member: "x \<in> set xs \<Longrightarrow> py_in x xs"
  unfolding py_in_iff using py_eq_refl by blast

lemma generate_val_keys_tracks_both:
  assumes "v \<in> set (table_validator s)"
  shows "truthy (dget v ''master_key'') \<Longrightarrow>
           py_in (dget v ''master_key'') (val_keys (generate_val_keys s))"
    and "truthy (dget v ''validation_public_key'') \<Longrightarrow>
           py_in (dget v ''validation_public_key'') (val_keys (generate_val_keys s))"
  using assms
  by (auto simp: generate_val_keys_def intro!: py_in_member)

text \<open>
  Claim C6 says that the key list after a dedup pass still holds the ephemeral keys of
  the records that remain. The code rebuilds the list from the master keys alone: with
  ceiling 2 and one signature logged, the next message fires the prune and the dedup
  pass, and the ephemeral key \<open>E1\<close> of the only record is gone from the list. A
  message known by that key alone was in scope before the pass and is not after it.
\<close>

theorem dedup_pass_drops_ephemeral_key:
  "val_keys (generate_val_keys ((init 0)\<lparr>table_validator := [validator_M1]\<rparr>))
     = [PStr ''M1'', PStr ''E1'']
   \<and> check_validations (config 2 True) ''t2'' [PStr ''M1'', PStr ''E1''] [validator_M1]
       [PStr ''S1''] (vote ''M1'' ''S2'' 102)
     = (None, [PStr ''M1''],
        [update_validator ''t2'' (vote_data ''M1'' ''S2'' 102) validator_M1], [PStr ''S2''])
   \<and> update_validator ''t2'' (vote_data ''M1'' ''S2'' 102) validator_M1 ''validation_public_key''
       = Some (PStr ''E1'')
   \<and> \<not> py_in (PStr ''E1'') [PStr ''M1'']
   \<and> in_scope [PStr ''M1'', PStr ''E1'']
        [''validation_public_key'' \<mapsto> PStr ''E1'', ''signature'' \<mapsto> PStr ''S3'']
   \<and> \<not> in_scope [PStr ''M1'']
        [''validation_public_key'' \<mapsto> PStr ''E1'', ''signature'' \<mapsto> PStr ''S3'']"
  by (simp add: handler_defs record_defs generate_val_keys_def init_def)

section \<open>The dispatcher\<close>

text \<open>
  Claim C7, as amended. The dispatcher takes at most one branch, chosen by shape: a
  \<open>result\<close> field sends the message to the server handler, otherwise the type
  \<open>ledgerClosed\<close> to the ledger handler, otherwise the type \<open>validationReceived\<close> to
  the validation handler. In each case the dispatcher calls that handler alone, on
  the current tables, stores what it returns and raises what it raises. A message
  without \<open>data\<close>, or with neither \<open>result\<close> nor
  \<open>type\<close>, raises \<open>KeyError\<close>, which the loop logs together with the message before
  it goes on. A message without \<open>result\<close> whose type is present but is neither tag
  runs no handler and raises nothing: the state is as before.
\<close>

theorem sort_new_messages_routes:
  "(data m = Some d \<and> d ''result'' \<noteq> None
        \<longrightarrow> classify m = Inr ServerHandler
          \<and> sort_new_messages ext settings t m s
              = (case update_table_server ext (table_stock s) (notification_queue s) m of
                   Inl e \<Rightarrow> (Some e, s)
                 | Inr (stock, queue) \<Rightarrow>
                     (None, s\<lparr>table_stock := stock, notification_queue := queue\<rparr>)))
   \<and> (data m = Some d \<and> d ''result'' = None \<and> d ''type'' = Some (PStr ''ledgerClosed'')
        \<longrightarrow> classify m = Inr LedgerHandler
          \<and> sort_new_messages ext settings t m s
              = (case update_table_ledger ext (table_stock s) m of
                   Inl e \<Rightarrow> (Some e, s)
                 | Inr stock \<Rightarrow> (None, s\<lparr>table_stock := stock\<rparr>)))
   \<and> (data m = Some d \<and> d ''result'' = None \<and> d ''type'' = Some (PStr ''validationReceived'')
        \<longrightarrow> classify m = Inr ValidationHandler
          \<and> fst (sort_new_messages ext settings t m s)
              = fst (check_validations settings (localtime t) (val_keys s) (table_validator s)
                       (processed_validations s) m)
          \<and> sort_new_messages ext settings t m s
              = (case check_validations settings (localtime t) (val_keys s) (table_validator s)
                       (processed_validations s) m of
                   (err, keys, table, seen) \<Rightarrow>
                     (err, s\<lparr>val_keys := keys, table_validator := table,
                              processed_validations := seen\<rparr>)))
   \<and> (data m = None
        \<longrightarrow> iteration ext settings t m s = (Some (KeyError ''data''), s)
          \<and> process_loop ext settings ((t, Delivered m) # rest) s
              = process_loop ext settings rest
                  (s\<lparr>logged := logged s @ [UnexpectedMessage (KeyError ''data'') m]\<rparr>))
   \<and> (data m = Some d \<and> d ''result'' = None \<and> d ''type'' = None
        \<longrightarrow> iteration ext settings t m s = (Some (KeyError ''type''), s)
          \<and> process_loop ext settings ((t, Delivered m) # rest) s
              = process_loop ext settings rest
                  (s\<lparr>logged := logged s @ [UnexpectedMessage (KeyError ''type'') m]\<rparr>))
   \<and> (data m = Some d \<and> d ''result'' = None \<and> d ''type'' = Some ty
        \<and> \<not> py_eq ty (PStr ''ledgerClosed'') \<and> \<not> py_eq ty (PStr ''validationReceived'')
        \<longrightarrow> classify m = Inr Unrouted
          \<and> sort_new_messages ext settings t m s = (None, s))"
  by (auto simp: classify_def sort_new_messages_def iteration_def split: prod.splits)

text \<open>
  One message of each shape, and for each handler a call whose result shows in the
  state: a server table and a ledger table returned by the collaborators, and the
  vote of \<open>M1\<close> merged and logged by the validation handler.
\<close>

theorem sort_new_messages_routes_witness:
  "classify (vote ''M1'' ''S1'' 101) = Inr ValidationHandler
   \<and> classify ledger_message = Inr LedgerHandler
   \<and> classify \<lparr>data = Some [''result'' \<mapsto> PNone, ''type'' \<mapsto> PStr ''ledgerClosed''],
                server_url = None\<rparr> = Inr ServerHandler
   \<and> iteration quiet (config 10 False) (instant 0) malformed_message (init 0)
       = (Some (KeyError ''type''), init 0)
   \<and> iteration quiet (config 10 False) (instant 0) \<lparr>data = None, server_url = None\<rparr> (init 0)
       = (Some (KeyError ''data''), init 0)
   \<and> classify status_message = Inr Unrouted
   \<and> sort_new_messages quiet (config 10 False) (instant 0) status_message (init 0)
       = (None, init 0)
   \<and> sort_new_messages
        (quiet\<lparr>update_table_server :=
                 (\<lambda>stock queue m. Inr ([[''server_name'' \<mapsto> PStr ''s1'']], queue))\<rparr>)
        (config 10 False) (instant 0)
        \<lparr>data = Some [''result'' \<mapsto> PNone, ''type'' \<mapsto> PStr ''ledgerClosed''],
          server_url = None\<rparr> (init 0)
       = (None, (init 0)\<lparr>table_stock := [[''server_name'' \<mapsto> PStr ''s1'']]\<rparr>)
   \<and> sort_new_messages
        (quiet\<lparr>update_table_ledger :=
                 (\<lambda>stock m. Inr ([[''ledger_index'' \<mapsto> PInt 9]]))\<rparr>)
        (config 10 False) (instant 0) ledger_message (init 0)
       = (None, (init 0)\<lparr>table_stock := [[''ledger_index'' \<mapsto> PInt 9]]\<rparr>)
   \<and> sort_new_messages quiet (config 10 False) (instant 0) (vote ''M1'' ''S1'' 101)
        ((init 0)\<lparr>val_keys := [PStr ''M1'', PStr ''E1''], table_validator := [validator_M1]\<rparr>)
       = (None,
          (init 0)\<lparr>val_keys := [PStr ''M1'', PStr ''E1''],
            table_validator :=
              [update_validator ''local'' (vote_data ''M1'' ''S1'' 101) validator_M1],
            processed_validations := [PStr ''S1'']\<rparr>)"
proof -
  let ?result = "\<lparr>data = Some [''result'' \<mapsto> PNone, ''type'' \<mapsto> PStr ''ledgerClosed''],
                   server_url = None\<rparr>"
  let ?serving = "quiet\<lparr>update_table_server :=
                    (\<lambda>stock queue m. Inr ([[''server_name'' \<mapsto> PStr ''s1'']], queue))\<rparr>"
  let ?closing = "quiet\<lparr>update_table_ledger :=
                    (\<lambda>stock m. Inr ([[''ledger_index'' \<mapsto> PInt 9]]))\<rparr>"
  let ?tracking = "(init 0)\<lparr>val_keys := [PStr ''M1'', PStr ''E1''],
                     table_validator := [validator_M1]\<rparr>"
  have v: "data (vote ''M1'' ''S1'' 101) = Some (vote_data ''M1'' ''S1'' 101)
            \<and> vote_data ''M1'' ''S1'' 101 ''result'' = None
            \<and> vote_data ''M1'' ''S1'' 101 ''type'' = Some (PStr ''validationReceived'')"
    by (simp add: vote_def vote_data_def)
  have l: "data ledger_message = Some [''type'' \<mapsto> PStr ''ledgerClosed'']
            \<and> [''type'' \<mapsto> PStr ''ledgerClosed''] ''result'' = None
            \<and> [''type'' \<mapsto> PStr ''ledgerClosed''] ''type'' = Some (PStr ''ledgerClosed'')"
    by (simp add: ledger_message_def)
  have r: "data \<lparr>data = Some [''result'' \<mapsto> PNone, ''type'' \<mapsto> PStr ''ledgerClosed''],
                 server_url = None\<rparr>
             = Some [''result'' \<mapsto> PNone, ''type'' \<mapsto> PStr ''ledgerClosed'']
            \<and> [''result'' \<mapsto> PNone, ''type'' \<mapsto> PStr ''ledgerClosed''] ''result'' \<noteq> None"
    by simp
  have b: "data malformed_message = Some [''ledger_index'' \<mapsto> PInt 5]
            \<and> [''ledger_index'' \<mapsto> PInt 5] ''result'' = None
            \<and> [''ledger_index'' \<mapsto> PInt 5] ''type'' = None"
    by (simp add: malformed_message_def)
  have n: "data \<lparr>data = None, server_url = None\<rparr> = None" by simp
  have st: "data status_message = Some [''type'' \<mapsto> PStr ''serverStatus'']
            \<and> [''type'' \<mapsto> PStr ''serverStatus''] ''result'' = None
            \<and> [''type'' \<mapsto> PStr ''serverStatus''] ''type'' = Some (PStr ''serverStatus'')
            \<and> \<not> py_eq (PStr ''serverStatus'') (PStr ''ledgerClosed'')
            \<and> \<not> py_eq (PStr ''serverStatus'') (PStr ''validationReceived'')"
    by (simp add: status_message_def)
  from sort_new_messages_routes[where m = "vote ''M1'' ''S1'' 101"
      and d = "vote_data ''M1'' ''S1'' 101",
      THEN conjunct2, THEN conjunct2, THEN conjunct1] v
  have 1: "classify (vote ''M1'' ''S1'' 101) = Inr ValidationHandler" by blast
  from sort_new_messages_routes[where m = ledger_message
      and d = "[''type'' \<mapsto> PStr ''ledgerClosed'']",
      THEN conjunct2, THEN conjunct1] l
  have 2: "classify ledger_message = Inr LedgerHandler" by blast
  from sort_new_messages_routes[where
      m = "\<lparr>data = Some [''result'' \<mapsto> PNone, ''type'' \<mapsto> PStr ''ledgerClosed''],
             server_url = None\<rparr>"
      and d = "[''result'' \<mapsto> PNone, ''type'' \<mapsto> PStr ''ledgerClosed'']",
      THEN conjunct1] r
  have 3: "classify \<lparr>data = Some [''result'' \<mapsto> PNone, ''type'' \<mapsto> PStr ''ledgerClosed''],
                     server_url = None\<rparr> = Inr ServerHandler"
    by blast
  from sort_new_messages_routes[where m = malformed_message
      and d = "[''ledger_index'' \<mapsto> PInt 5]" and ext = quiet and settings = "config 10 False"
      and t = "instant 0" and s = "init 0",
      THEN conjunct2, THEN conjunct2, THEN conjunct2, THEN conjunct2, THEN conjunct1] b
  have 4: "iteration quiet (config 10 False) (instant 0) malformed_message (init 0)
       = (Some (KeyError ''type''), init 0)"
    by blast
  from sort_new_messages_routes[where m = "\<lparr>data = None, server_url = None\<rparr>"
      and ext = quiet and settings = "config 10 False" and t = "instant 0" and s = "init 0",
      THEN conjunct2, THEN conjunct2, THEN conjunct2, THEN conjunct1] n
  have 5: "iteration quiet (config 10 False) (instant 0) \<lparr>data = None, server_url = None\<rparr> (init 0)
       = (Some (KeyError ''data''), init 0)"
    by blast
  from sort_new_messages_routes[where m = status_message
      and d = "[''type'' \<mapsto> PStr ''serverStatus'']" and ty = "PStr ''serverStatus''"
      and ext = quiet and settings = "config 10 False" and t = "instant 0" and s = "init 0",
      THEN conjunct2, THEN conjunct2, THEN conjunct2, THEN conjunct2, THEN conjunct2] st
  have 6: "classify status_message = Inr Unrouted
     \<and> sort_new_messages quiet (config 10 False) (instant 0) status_message (init 0)
         = (None, init 0)"
    by blast
  from sort_new_messages_routes[where m = ?result
      and d = "[''result'' \<mapsto> PNone, ''type'' \<mapsto> PStr ''ledgerClosed'']" and ext = ?serving
      and settings = "config 10 False" and t = "instant 0" and s = "init 0",
      THEN conjunct1] r
  have "sort_new_messages ?serving (config 10 False) (instant 0) ?result (init 0)
     = (case update_table_server ?serving (table_stock (init 0)) (notification_queue (init 0))
               ?result of
          Inl e \<Rightarrow> (Some e, init 0)
        | Inr (stock, queue) \<Rightarrow>
            (None, (init 0)\<lparr>table_stock := stock, notification_queue := queue\<rparr>))"
    by blast
  then have 7: "sort_new_messages ?serving (config 10 False) (instant 0) ?result (init 0)
     = (None, (init 0)\<lparr>table_stock := [[''server_name'' \<mapsto> PStr ''s1'']]\<rparr>)"
    by (simp add: quiet_def init_def)
  from sort_new_messages_routes[where m = ledger_message
      and d = "[''type'' \<mapsto> PStr ''ledgerClosed'']" and ext = ?closing
      and settings = "config 10 False" and t = "instant 0" and s = "init 0",
      THEN conjunct2, THEN conjunct1] l
  have "sort_new_messages ?closing (config 10 False) (instant 0) ledger_message (init 0)
     = (case update_table_ledger ?closing (table_stock (init 0)) ledger_message of
          Inl e \<Rightarrow> (Some e, init 0)
        | Inr stock \<Rightarrow> (None, (init 0)\<lparr>table_stock := stock\<rparr>))"
    by blast
  then have 8: "sort_new_messages ?closing (config 10 False) (instant 0) ledger_message (init 0)
     = (None, (init 0)\<lparr>table_stock := [[''ledger_index'' \<mapsto> PInt 9]]\<rparr>)"
    by (simp add: quiet_def init_def)
  have cv: "check_validations (config 10 False) (localtime (instant 0)) (val_keys ?tracking)
       (table_validator ?tracking) (processed_validations ?tracking) (vote ''M1'' ''S1'' 101)
     = (None, [PStr ''M1'', PStr ''E1''],
        [update_validator ''local'' (vote_data ''M1'' ''S1'' 101) validator_M1], [PStr ''S1''])"
    by (simp add: handler_defs instant_def init_def)
  from sort_new_messages_routes[where m = "vote ''M1'' ''S1'' 101"
      and d = "vote_data ''M1'' ''S1'' 101" and ext = quiet and settings = "config 10 False"
      and t = "instant 0" and s = ?tracking,
      THEN conjunct2, THEN conjunct2, THEN conjunct1] v
  have "sort_new_messages quiet (config 10 False) (instant 0) (vote ''M1'' ''S1'' 101) ?tracking
     = (case check_validations (config 10 False) (localtime (instant 0)) (val_keys ?tracking)
               (table_validator ?tracking) (processed_validations ?tracking)
               (vote ''M1'' ''S1'' 101) of
          (err, keys, table, seen) \<Rightarrow>
            (err, ?tracking\<lparr>val_keys := keys, table_validator := table,
                             processed_validations := seen\<rparr>))"
    by blast
  with cv have 9: "sort_new_messages quiet (config 10 False) (instant 0) (vote ''M1'' ''S1'' 101)
       ?tracking
     = (None,
        (init 0)\<lparr>val_keys := [PStr ''M1'', PStr ''E1''],
          table_validator :=
            [update_validator ''local'' (vote_data ''M1'' ''S1'' 101) validator_M1],
          processed_validations := [PStr ''S1'']\<rparr>)"
    by (simp add: init_def)
  from 1 2 3 4 5 6 7 8 9 show ?thesis by blast
qed

text \<open>
  A \<open>serverStatus\<close> stream message is of no recognized shape, yet its iteration
  raises nothing and the loop goes on with nothing logged.
\<close>

theorem sort_new_messages_routes_counterexample:
  "iteration quiet (config 10 False) (instant 0) status_message (init 0) = (None, init 0)
   \<and> process_loop quiet (config 10 False) [(instant 0, Delivered status_message)] (init 0)
     = (False, init 0)
   \<and> logged (init 0) = []"
  by (simp add: loop_defs status_message_def config_def)

section \<open>The periodic triggers\<close>

lemma sort_new_messages_heartbeat_frame:
  "last_heartbeat (snd (sort_new_messages ext settings t m s)) = last_heartbeat s"
  by (auto simp: sort_new_messages_def split: sum.splits route.splits prod.splits)

lemma evaluate_forks_heartbeat_frame:
  "last_heartbeat (snd (evaluate_forks ext settings t s)) = last_heartbeat s"
  by (auto simp: evaluate_forks_def split: sum.splits prod.splits)

lemma process_console_output_heartbeat_frame:
  "last_heartbeat (snd (process_console_output ext settings t s)) = last_heartbeat s"
  by (auto simp: process_console_output_def split: option.splits)

text \<open>
  Claim C8, as amended. The fork check runs when more than \<open>FORK_CHECK_FREQ\<close> has
  passed since it last ran, and not when less has. The console refresh runs exactly
  when \<open>CONSOLE_OUT\<close> is set and at least \<open>CONSOLE_REFRESH_TIME\<close> has passed. The
  heartbeat is due exactly when \<open>ADMIN_HEARTBEAT\<close> is set and at least
  \<open>HEARTBEAT_INTERVAL\<close> has passed; with a non-empty mode list it then enqueues one
  notification per recipient and records the time. After a dispatch that raised
  nothing the three are evaluated in the order fork check, console refresh,
  heartbeat; a raise in the dispatch or in an earlier trigger skips the later ones.
  Only the heartbeat changes \<open>last_heartbeat\<close>. With an interval of 60, the flag set
  and \<open>last_heartbeat = 0\<close>, the checks at 0, 10 and 30 emit nothing, and the check at
  61 emits one notification per recipient.
\<close>

theorem periodic_triggers:
  "(FORK_CHECK_FREQ settings < clock t - time_fork_check s
      \<and> fork_checker ext settings (table_stock s) (table_validator s) (notification_queue s)
          = Inr ((modes, stock, validators), queue)
     \<longrightarrow> evaluate_forks ext settings t s
          = (None, s\<lparr>ll_modes := modes, table_stock := stock, table_validator := validators,
                      notification_queue := queue, time_fork_check := clock t\<rparr>))
   \<and> (clock t - time_fork_check s < FORK_CHECK_FREQ settings
     \<longrightarrow> evaluate_forks ext settings t s = (None, s))
   \<and> (CONSOLE_OUT settings \<and> CONSOLE_REFRESH_TIME settings \<le> clock t - time_last_output s
      \<and> print_table_server ext (table_stock s) = None
      \<and> (table_validator s = [] \<or> print_table_validation ext (table_validator s) = None)
     \<longrightarrow> process_console_output ext settings t s = (None, s\<lparr>time_last_output := clock t\<rparr>))
   \<and> (\<not> (CONSOLE_OUT settings \<and> CONSOLE_REFRESH_TIME settings \<le> clock t - time_last_output s)
     \<longrightarrow> process_console_output ext settings t s = (None, s))
   \<and> (ADMIN_HEARTBEAT settings \<and> HEARTBEAT_INTERVAL settings \<le> clock t - last_heartbeat s
      \<and> ll_modes s = mode # others
     \<longrightarrow> heartbeat_message settings t s
          = (None,
             s\<lparr>notification_queue :=
                  notification_queue s
                    @ map (\<lambda>admin. \<lparr>n_message = heartbeat_text mode (gmtime t), n_server = admin\<rparr>)
                        (ADMIN_NOTIFICATIONS settings),
                last_heartbeat := clock t\<rparr>))
   \<and> (\<not> (ADMIN_HEARTBEAT settings \<and> HEARTBEAT_INTERVAL settings \<le> clock t - last_heartbeat s)
     \<longrightarrow> heartbeat_message settings t s = (None, s))
   \<and> (sort_new_messages ext settings t m s = (None, s1)
      \<and> evaluate_forks ext settings t s1 = (None, s2)
      \<and> process_console_output ext settings t s2 = (None, s3)
     \<longrightarrow> iteration ext settings t m s = heartbeat_message settings t s3)
   \<and> (sort_new_messages ext settings t m s = (Some e, s1)
     \<longrightarrow> iteration ext settings t m s = (Some e, s1))
   \<and> (sort_new_messages ext settings t m s = (None, s1)
      \<and> evaluate_forks ext settings t s1 = (Some e, s2)
     \<longrightarrow> iteration ext settings t m s = (Some e, s2))
   \<and> (sort_new_messages ext settings t m s = (None, s1)
      \<and> evaluate_forks ext settings t s1 = (None, s2)
      \<and> process_console_output ext settings t s2 = (Some e, s3)
     \<longrightarrow> iteration ext settings t m s = (Some e, s3))
   \<and> (FORK_CHECK_FREQ settings < clock t - time_fork_check s
      \<and> fork_checker ext settings (table_stock s) (table_validator s) (notification_queue s)
          = Inl e
     \<longrightarrow> evaluate_forks ext settings t s = (Some e, s))
   \<and> (CONSOLE_OUT settings \<and> CONSOLE_REFRESH_TIME settings \<le> clock t - time_last_output s
      \<and> print_table_server ext (table_stock s) = Some e
     \<longrightarrow> process_console_output ext settings t s = (Some e, s))
   \<and> (CONSOLE_OUT settings \<and> CONSOLE_REFRESH_TIME settings \<le> clock t - time_last_output s
      \<and> print_table_server ext (table_stock s) = None
      \<and> table_validator s \<noteq> [] \<and> print_table_validation ext (table_validator s) = Some e
     \<longrightarrow> process_console_output ext settings t s = (Some e, s))
   \<and> last_heartbeat (snd (sort_new_messages ext settings t m s)) = last_heartbeat s
   \<and> last_heartbeat (snd (evaluate_forks ext settings t s)) = last_heartbeat s
   \<and> last_heartbeat (snd (process_console_output ext settings t s)) = last_heartbeat s
   \<and> (ADMIN_HEARTBEAT settings \<and> HEARTBEAT_INTERVAL settings = 60 \<and> last_heartbeat s = 0
      \<and> (clock t = 0 \<or> clock t = 10 \<or> clock t = 30)
     \<longrightarrow> heartbeat_message settings t s = (None, s))
   \<and> (ADMIN_HEARTBEAT settings \<and> HEARTBEAT_INTERVAL settings = 60 \<and> last_heartbeat s = 0
      \<and> clock t = 61 \<and> ll_modes s = mode # others
     \<longrightarrow> length (notification_queue (snd (heartbeat_message settings t s)))
          = length (notification_queue s) + length (ADMIN_NOTIFICATIONS settings)
        \<and> last_heartbeat (snd (heartbeat_message settings t s)) = 61)"
proof (intro conjI impI)
  show "last_heartbeat (snd (sort_new_messages ext settings t m s)) = last_heartbeat s"
    by (rule sort_new_messages_heartbeat_frame)
  show "last_heartbeat (snd (evaluate_forks ext settings t s)) = last_heartbeat s"
    by (rule evaluate_forks_heartbeat_frame)
  show "last_heartbeat (snd (process_console_output ext settings t s)) = last_heartbeat s"
    by (rule process_console_output_heartbeat_frame)
qed (auto simp: evaluate_forks_def process_console_output_def heartbeat_message_def iteration_def)

text \<open>
  Both trigger states of each function at concrete instants, and the loop on four
  messages at 0, 10, 30 and 61 with a fork check every 5 seconds: nothing is
  enqueued by the first three, two notifications (one per recipient) by the fourth.
  Last, a console refresh whose printer raises at 61: the iteration ends with that
  exception and the heartbeat, though due, enqueues nothing.
\<close>

theorem periodic_triggers_witness:
  "evaluate_forks quiet (config 10 False) (instant 61) ((init 0)\<lparr>ll_modes := [''full'']\<rparr>)
     = (None, (init 0)\<lparr>ll_modes := [''full'']\<rparr>)
   \<and> process_console_output quiet (config 10 False) (instant 61) ((init 0)\<lparr>ll_modes := [''full'']\<rparr>)
     = (None, (init 0)\<lparr>ll_modes := [''full'']\<rparr>)
   \<and> iteration quiet (config 10 False) (instant 61) status_message
        ((init 0)\<lparr>ll_modes := [''full'']\<rparr>)
     = (None,
        (init 0)\<lparr>ll_modes := [''full''],
          notification_queue :=
            [\<lparr>n_message = heartbeat_text ''full'' ''utc'', n_server = PStr ''+15550100''\<rparr>,
             \<lparr>n_message = heartbeat_text ''full'' ''utc'', n_server = PStr ''+15550101''\<rparr>],
          last_heartbeat := 61\<rparr>)
   \<and> length (notification_queue
         (snd (heartbeat_message (config 10 False) (instant 61) ((init 0)\<lparr>ll_modes := [''full'']\<rparr>))))
     = length (notification_queue ((init 0)\<lparr>ll_modes := [''full'']\<rparr>))
        + length (ADMIN_NOTIFICATIONS (config 10 False))
   \<and> evaluate_forks quiet ((config 10 False)\<lparr>FORK_CHECK_FREQ := 5, CONSOLE_OUT := True\<rparr>)
        (instant 10) (init 0)
     = (None, (init 0)\<lparr>ll_modes := [''full''], time_fork_check := 10\<rparr>)
   \<and> process_console_output quiet ((config 10 False)\<lparr>FORK_CHECK_FREQ := 5, CONSOLE_OUT := True\<rparr>)
        (instant 10) (init 0)
     = (None, (init 0)\<lparr>time_last_output := 10\<rparr>)
   \<and> heartbeat_message ((config 10 False)\<lparr>FORK_CHECK_FREQ := 5, CONSOLE_OUT := True\<rparr>)
        (instant 10) (init 0)
     = (None, init 0)
   \<and> process_loop quiet ((config 10 False)\<lparr>FORK_CHECK_FREQ := 5\<rparr>)
        [(instant 0, Delivered status_message), (instant 10, Delivered status_message),
         (instant 30, Delivered status_message)] (init 0)
     = (False, (init 0)\<lparr>ll_modes := [''full''], time_fork_check := 30\<rparr>)
   \<and> process_loop quiet ((config 10 False)\<lparr>FORK_CHECK_FREQ := 5\<rparr>)
        [(instant 0, Delivered status_message), (instant 10, Delivered status_message),
         (instant 30, Delivered status_message), (instant 61, Delivered status_message)] (init 0)
     = (False,
        (init 0)\<lparr>ll_modes := [''full''], time_fork_check := 61,
          notification_queue :=
            [\<lparr>n_message = heartbeat_text ''full'' ''utc'', n_server = PStr ''+15550100''\<rparr>,
             \<lparr>n_message = heartbeat_text ''full'' ''utc'', n_server = PStr ''+15550101''\<rparr>],
          last_heartbeat := 61\<rparr>)
   \<and> process_console_output
        (quiet\<lparr>print_table_server := (\<lambda>stock. Some (OtherException ''tty''))\<rparr>)
        ((config 10 False)\<lparr>CONSOLE_OUT := True\<rparr>) (instant 61)
        ((init 0)\<lparr>ll_modes := [''full'']\<rparr>)
     = (Some (OtherException ''tty''), (init 0)\<lparr>ll_modes := [''full'']\<rparr>)
   \<and> iteration (quiet\<lparr>print_table_server := (\<lambda>stock. Some (OtherException ''tty''))\<rparr>)
        ((config 10 False)\<lparr>CONSOLE_OUT := True\<rparr>) (instant 61) status_message
        ((init 0)\<lparr>ll_modes := [''full'']\<rparr>)
     = (Some (OtherException ''tty''), (init 0)\<lparr>ll_modes := [''full'']\<rparr>)"
proof -
  note skip2 = conjunct2[THEN conjunct2]
  note skip4 = skip2[THEN skip2]
  note skip8 = skip4[THEN skip4]
  note skip16 = skip8[THEN skip8]
  let ?c = "config 10 False"
  let ?c' = "(config 10 False)\<lparr>FORK_CHECK_FREQ := 5, CONSOLE_OUT := True\<rparr>"
  let ?s = "(init 0)\<lparr>ll_modes := [''full'']\<rparr>"
  let ?c'' = "(config 10 False)\<lparr>CONSOLE_OUT := True\<rparr>"
  let ?mute = "quiet\<lparr>print_table_server := (\<lambda>stock. Some (OtherException ''tty''))\<rparr>"
  note c = periodic_triggers[where ext = ?mute and settings = ?c'' and t = "instant 61"
      and s = ?s and m = status_message and e = "OtherException ''tty''"
      and ?s1.0 = ?s and ?s2.0 = ?s and ?s3.0 = ?s]
  have c7: "sort_new_messages ?mute ?c'' (instant 61) status_message ?s = (None, ?s)"
    by (simp add: sort_new_messages_def classify_def status_message_def)
  have c2: "clock (instant 61) - time_fork_check ?s < FORK_CHECK_FREQ ?c''"
    by (simp add: instant_def init_def config_def)
  have c3: "CONSOLE_OUT ?c'' \<and> CONSOLE_REFRESH_TIME ?c'' \<le> clock (instant 61) - time_last_output ?s
      \<and> print_table_server ?mute (table_stock ?s) = Some (OtherException ''tty'')"
    by (simp add: instant_def init_def config_def)
  from c[THEN conjunct2, THEN conjunct1]
    c2 have cf: "evaluate_forks ?mute ?c'' (instant 61) ?s = (None, ?s)" by blast
  from c[THEN skip8, THEN skip2, THEN conjunct2, THEN conjunct1]
    c3 have cc: "process_console_output ?mute ?c'' (instant 61) ?s
      = (Some (OtherException ''tty''), ?s)"
    by blast
  from c[THEN skip8, THEN conjunct2, THEN conjunct1]
    c7 cf cc have ci: "iteration ?mute ?c'' (instant 61) status_message ?s
      = (Some (OtherException ''tty''), ?s)"
    by blast
  note a = periodic_triggers[where ext = quiet and settings = ?c and t = "instant 61"
      and s = ?s and m = status_message and mode = "''full''" and others = "[]"
      and e = IndexError and ?s1.0 = ?s and ?s2.0 = ?s and ?s3.0 = ?s]
  note b = periodic_triggers[where ext = quiet and settings = ?c' and t = "instant 10"
      and s = "init 0" and modes = "[''full'']" and stock = "[]" and validators = "[]"
      and queue = "[]" and e = IndexError]
  have a2: "clock (instant 61) - time_fork_check ?s < FORK_CHECK_FREQ ?c"
    by (simp add: instant_def init_def config_def)
  have a4: "\<not> (CONSOLE_OUT ?c \<and> CONSOLE_REFRESH_TIME ?c \<le> clock (instant 61) - time_last_output ?s)"
    by (simp add: config_def)
  have a5: "ADMIN_HEARTBEAT ?c \<and> HEARTBEAT_INTERVAL ?c \<le> clock (instant 61) - last_heartbeat ?s
      \<and> ll_modes ?s = ''full'' # []"
    by (simp add: instant_def init_def config_def)
  have a7: "sort_new_messages quiet ?c (instant 61) status_message ?s = (None, ?s)"
    by (simp add: sort_new_messages_def classify_def status_message_def)
  from a[THEN conjunct2, THEN conjunct1]
    a2 have f61: "evaluate_forks quiet ?c (instant 61) ?s = (None, ?s)" by blast
  from a[THEN skip2, THEN conjunct2, THEN conjunct1]
    a4 have c61: "process_console_output quiet ?c (instant 61) ?s = (None, ?s)" by blast
  from a[THEN skip4, THEN conjunct1] a5 have h61: "heartbeat_message ?c (instant 61) ?s
     = (None, ?s\<lparr>notification_queue := notification_queue ?s
           @ map (\<lambda>admin. \<lparr>n_message = heartbeat_text ''full'' (gmtime (instant 61)), n_server = admin\<rparr>)
               (ADMIN_NOTIFICATIONS ?c),
         last_heartbeat := clock (instant 61)\<rparr>)"
    by blast
  from a[THEN skip4, THEN skip2, THEN conjunct1]
    a7 f61 c61 have "iteration quiet ?c (instant 61) status_message ?s
      = heartbeat_message ?c (instant 61) ?s"
    by blast
  with h61 have i61: "iteration quiet ?c (instant 61) status_message ?s
     = (None,
        (init 0)\<lparr>ll_modes := [''full''],
          notification_queue :=
            [\<lparr>n_message = heartbeat_text ''full'' ''utc'', n_server = PStr ''+15550100''\<rparr>,
             \<lparr>n_message = heartbeat_text ''full'' ''utc'', n_server = PStr ''+15550101''\<rparr>],
          last_heartbeat := 61\<rparr>)"
    by (simp add: instant_def init_def config_def)
  have a11: "ADMIN_HEARTBEAT ?c \<and> HEARTBEAT_INTERVAL ?c = 60 \<and> last_heartbeat ?s = 0
      \<and> clock (instant 61) = 61 \<and> ll_modes ?s = ''full'' # []"
    by (simp add: instant_def init_def config_def)
  from a[THEN skip16, THEN conjunct2]
    a11 have n61: "length (notification_queue (snd (heartbeat_message ?c (instant 61) ?s)))
     = length (notification_queue ?s) + length (ADMIN_NOTIFICATIONS ?c)"
    by simp
  have b1: "FORK_CHECK_FREQ ?c' < clock (instant 10) - time_fork_check (init 0)
      \<and> fork_checker quiet ?c' (table_stock (init 0)) (table_validator (init 0))
           (notification_queue (init 0)) = Inr (([''full''], [], []), [])"
    by (simp add: instant_def init_def config_def quiet_def)
  have b3: "CONSOLE_OUT ?c' \<and> CONSOLE_REFRESH_TIME ?c' \<le> clock (instant 10) - time_last_output (init 0)
      \<and> print_table_server quiet (table_stock (init 0)) = None
      \<and> (table_validator (init 0) = [] \<or> print_table_validation quiet (table_validator (init 0)) = None)"
    by (simp add: instant_def init_def config_def quiet_def)
  have b6: "\<not> (ADMIN_HEARTBEAT ?c' \<and> HEARTBEAT_INTERVAL ?c' \<le> clock (instant 10) - last_heartbeat (init 0))"
    by (simp add: instant_def init_def config_def)
  from b[THEN conjunct1] b1 have f10: "evaluate_forks quiet ?c' (instant 10) (init 0)
     = (None, (init 0)\<lparr>ll_modes := [''full''], table_stock := [], table_validator := [],
                      notification_queue := [], time_fork_check := clock (instant 10)\<rparr>)"
    by blast
  then have f10': "evaluate_forks quiet ?c' (instant 10) (init 0)
     = (None, (init 0)\<lparr>ll_modes := [''full''], time_fork_check := 10\<rparr>)"
    by (simp add: instant_def init_def)
  from b[THEN skip2, THEN conjunct1] b3 have "process_console_output quiet ?c' (instant 10) (init 0)
     = (None, (init 0)\<lparr>time_last_output := clock (instant 10)\<rparr>)"
    by blast
  then have c10: "process_console_output quiet ?c' (instant 10) (init 0)
     = (None, (init 0)\<lparr>time_last_output := 10\<rparr>)"
    by (simp add: instant_def)
  from b[THEN skip4, THEN conjunct2, THEN conjunct1]
    b6 have h10: "heartbeat_message ?c' (instant 10) (init 0) = (None, init 0)" by blast
  have l3: "process_loop quiet ((config 10 False)\<lparr>FORK_CHECK_FREQ := 5\<rparr>)
        [(instant 0, Delivered status_message), (instant 10, Delivered status_message),
         (instant 30, Delivered status_message)] (init 0)
     = (False, (init 0)\<lparr>ll_modes := [''full''], time_fork_check := 30\<rparr>)"
    by (simp add: loop_defs status_message_def config_def)
  have l4: "process_loop quiet ((config 10 False)\<lparr>FORK_CHECK_FREQ := 5\<rparr>)
        [(instant 0, Delivered status_message), (instant 10, Delivered status_message),
         (instant 30, Delivered status_message), (instant 61, Delivered status_message)] (init 0)
     = (False,
        (init 0)\<lparr>ll_modes := [''full''], time_fork_check := 61,
          notification_queue :=
            [\<lparr>n_message = heartbeat_text ''full'' ''utc'', n_server = PStr ''+15550100''\<rparr>,
             \<lparr>n_message = heartbeat_text ''full'' ''utc'', n_server = PStr ''+15550101''\<rparr>],
          last_heartbeat := 61\<rparr>)"
    by (simp add: loop_defs status_message_def config_def)
  from f61 c61 i61 n61 f10' c10 h10 l3 l4 cc ci show ?thesis by blast
qed

text \<open>
  With \<open>CONSOLE_OUT\<close> off the console refresh does not run although 100 seconds, more
  than its interval of 5, have passed.
\<close>

theorem periodic_triggers_counterexample:
  "CONSOLE_REFRESH_TIME (config 10 False) \<le> clock (instant 100) - time_last_output (init 0)
   \<and> process_console_output quiet (config 10 False) (instant 100) (init 0) = (None, init 0)"
  by (simp add: process_console_output_def config_def instant_def init_def)

section \<open>Recovery at the loop boundary\<close>

text \<open>What the handler and the collaborators can raise.\<close>

lemma update_loop_raises:
  "update_loop now d table = (Some e, table') \<Longrightarrow> \<exists>k. e = KeyError k"
proof (induction table arbitrary: table')
  case Nil then show ?case by simp
next
  case (Cons v vs)
  then show ?case
    by (auto simp: match_validator_def match_ephemeral_def
             split: sum.splits prod.splits if_splits option.splits)
qed

lemma check_validations_raises:
  "check_validations settings now ks tbl seen m = (Some e, st) \<Longrightarrow> \<exists>k. e = KeyError k"
  by (auto simp: check_validations_def process_validations_def update_table_validator_def
           split: option.splits if_splits prod.splits dest: update_loop_raises)

lemma sort_new_messages_raises:
  assumes "uninterrupted ext" and "sort_new_messages ext settings t m s = (Some e, s')"
  shows "\<not> is_interrupt e"
proof (cases "classify m")
  case (Inl e')
  with assms(2) have "e = e'" by (simp add: sort_new_messages_def)
  with Inl show ?thesis
    by (auto simp: classify_def split: option.splits if_splits)
next
  case (Inr r)
  show ?thesis
  proof (cases r)
    case ServerHandler
    with Inr assms show ?thesis
      by (auto simp: sort_new_messages_def uninterrupted_def split: sum.splits prod.splits)
  next
    case LedgerHandler
    with Inr assms show ?thesis
      by (auto simp: sort_new_messages_def uninterrupted_def split: sum.splits)
  next
    case ValidationHandler
    with Inr assms(2) obtain st where
      "check_validations settings (localtime t) (val_keys s) (table_validator s)
         (processed_validations s) m = (Some e, st)"
      by (auto simp: sort_new_messages_def split: prod.splits)
    from check_validations_raises[OF this] show ?thesis by auto
  next
    case Unrouted
    with Inr assms(2) show ?thesis by (simp add: sort_new_messages_def)
  qed
qed

lemma evaluate_forks_raises:
  assumes "uninterrupted ext" and "evaluate_forks ext settings t s = (Some e, s')"
  shows "\<not> is_interrupt e"
  using assms
  by (auto simp: evaluate_forks_def uninterrupted_def split: if_splits sum.splits prod.splits)

lemma process_console_output_raises:
  assumes "uninterrupted ext" and "process_console_output ext settings t s = (Some e, s')"
  shows "\<not> is_interrupt e"
  using assms
  by (auto simp: process_console_output_def uninterrupted_def split: if_splits option.splits)

lemma heartbeat_message_raises:
  "heartbeat_message settings t s = (Some e, s') \<Longrightarrow> e = IndexError"
  by (auto simp: heartbeat_message_def split: if_splits list.splits)

lemma iteration_raises:
  assumes u: "uninterrupted ext" and it: "iteration ext settings t m s = (Some e, s')"
  shows "\<not> is_interrupt e"
proof -
  obtain r1 s1 where a: "sort_new_messages ext settings t m s = (r1, s1)" by fastforce
  show ?thesis
  proof (cases r1)
    case (Some e1)
    with a it have "e = e1" by (simp add: iteration_def)
    with sort_new_messages_raises[OF u] a Some show ?thesis by blast
  next
    case None
    note n1 = None
    obtain r2 s2 where b: "evaluate_forks ext settings t s1 = (r2, s2)" by fastforce
    show ?thesis
    proof (cases r2)
      case (Some e2)
      with a n1 b it have "e = e2" by (simp add: iteration_def)
      with evaluate_forks_raises[OF u] b Some show ?thesis by blast
    next
      case None
      note n2 = None
      obtain r3 s3 where c: "process_console_output ext settings t s2 = (r3, s3)" by fastforce
      show ?thesis
      proof (cases r3)
        case (Some e3)
        with a n1 b n2 c it have "e = e3" by (simp add: iteration_def)
        with process_console_output_raises[OF u] c Some show ?thesis by blast
      next
        case None
        with a n1 b n2 c it have "heartbeat_message settings t s3 = (Some e, s')"
          by (simp add: iteration_def)
        from heartbeat_message_raises[OF this] show ?thesis by simp
      qed
    qed
  qed
qed

lemma handle_exception_continues:
  "\<not> is_interrupt e \<Longrightarrow> fst (handle_exception e m s) = False"
  by (cases e) auto

lemma process_loop_keeps_running:
  assumes u: "uninterrupted ext"
  shows "list_all (\<lambda>x. is_message (snd x)) deliveries \<Longrightarrow>
         \<not> fst (process_loop ext settings deliveries s)"
proof (induction deliveries arbitrary: s)
  case Nil then show ?case by simp
next
  case (Cons a rest)
  obtain t dv where a: "a = (t, dv)" by (cases a)
  with Cons.prems obtain m where dv: "dv = Delivered m" by (cases dv) auto
  from Cons.prems have rest: "list_all (\<lambda>x. is_message (snd x)) rest" by simp
  obtain r s1 where it: "iteration ext settings t m s = (r, s1)" by fastforce
  show ?case
  proof (cases r)
    case None
    with it a dv Cons.IH[OF rest] show ?thesis by simp
  next
    case (Some e)
    with it iteration_raises[OF u] have ni: "\<not> is_interrupt e" by blast
    obtain b s2 where h: "handle_exception e m s1 = (b, s2)" by fastforce
    with handle_exception_continues[OF ni, of m s1] have "b = False" by simp
    with h it Some a dv Cons.IH[OF rest] show ?thesis by simp
  qed
qed

text \<open>
  Claim C9. When the processing of a message raises \<open>KeyError\<close>, the loop logs a
  warning with the error and the message and goes on with the next delivery, from the
  state the raise left. A cancellation or keyboard interrupt, raised while waiting or
  while processing, is logged and ends the loop. Any other exception is logged at
  critical severity and the loop goes on. So, as long as no cancellation or interrupt
  arrives, the loop is still running after any sequence of messages.
\<close>

theorem process_loop_recovery:
  "(iteration ext settings t m s = (Some (KeyError k), s') \<longrightarrow>
      process_loop ext settings ((t, Delivered m) # rest) s
        = process_loop ext settings rest
            (s'\<lparr>logged := logged s' @ [UnexpectedMessage (KeyError k) m]\<rparr>)
      \<and> level (UnexpectedMessage (KeyError k) m) = Warning)
   \<and> (iteration ext settings t m s = (Some e, s') \<and> is_interrupt e \<longrightarrow>
      process_loop ext settings ((t, Delivered m) # rest) s
        = (True, s'\<lparr>logged := logged s' @ [ProcessorStopped]\<rparr>))
   \<and> (\<not> is_message dv \<longrightarrow>
      process_loop ext settings ((t, dv) # rest) s
        = (True, s\<lparr>logged := logged s @ [ProcessorStopped]\<rparr>))
   \<and> (iteration ext settings t m s = (Some e, s') \<and> \<not> is_interrupt e \<and> (\<forall>k. e \<noteq> KeyError k) \<longrightarrow>
      process_loop ext settings ((t, Delivered m) # rest) s
        = process_loop ext settings rest (s'\<lparr>logged := logged s' @ [UncaughtException e]\<rparr>)
      \<and> level (UncaughtException e) = Critical)
   \<and> (uninterrupted ext \<and> list_all (\<lambda>x. is_message (snd x)) deliveries \<longrightarrow>
      \<not> fst (process_loop ext settings deliveries s))"
proof (intro conjI impI)
  assume "iteration ext settings t m s = (Some e, s') \<and> is_interrupt e"
  then show "process_loop ext settings ((t, Delivered m) # rest) s
        = (True, s'\<lparr>logged := logged s' @ [ProcessorStopped]\<rparr>)"
    by (cases e) auto
next
  assume "\<not> is_message dv"
  then show "process_loop ext settings ((t, dv) # rest) s
        = (True, s\<lparr>logged := logged s @ [ProcessorStopped]\<rparr>)"
    by (cases dv) auto
next
  assume "iteration ext settings t m s = (Some e, s') \<and> \<not> is_interrupt e \<and> (\<forall>k. e \<noteq> KeyError k)"
  then show "process_loop ext settings ((t, Delivered m) # rest) s
        = process_loop ext settings rest (s'\<lparr>logged := logged s' @ [UncaughtException e]\<rparr>)"
    by (cases e) auto
next
  assume "uninterrupted ext \<and> list_all (\<lambda>x. is_message (snd x)) deliveries"
  then show "\<not> fst (process_loop ext settings deliveries s)"
    using process_loop_keeps_running by blast
qed simp_all

text \<open>
  A message without \<open>type\<close> followed by one whose heartbeat finds no network mode:
  both are logged and the loop still runs. A cancelled ledger handler, and an
  interrupt while waiting, end the loop.
\<close>

theorem process_loop_recovery_witness:
  "iteration quiet (config 10 False) (instant 0) malformed_message (init 0)
     = (Some (KeyError ''type''), init 0)
   \<and> process_loop quiet (config 10 False)
        [(instant 0, Delivered malformed_message), (instant 61, Delivered status_message)] (init 0)
     = (False, (init 0)\<lparr>logged := [UnexpectedMessage (KeyError ''type'') malformed_message,
                                     UncaughtException IndexError]\<rparr>)
   \<and> iteration quiet (config 10 False) (instant 61) status_message (init 0)
     = (Some IndexError, init 0)
   \<and> iteration (quiet\<lparr>update_table_ledger := (\<lambda>stock m. Inl CancelledError)\<rparr>) (config 10 False)
        (instant 0) ledger_message (init 0)
     = (Some CancelledError, init 0)
   \<and> process_loop (quiet\<lparr>update_table_ledger := (\<lambda>stock m. Inl CancelledError)\<rparr>)
        (config 10 False)
        [(instant 0, Delivered ledger_message), (instant 61, Delivered status_message)] (init 0)
     = (True, (init 0)\<lparr>logged := [ProcessorStopped]\<rparr>)
   \<and> process_loop quiet (config 10 False)
        [(instant 0, Interrupted), (instant 61, Delivered status_message)] (init 0)
     = (True, (init 0)\<lparr>logged := [ProcessorStopped]\<rparr>)
   \<and> uninterrupted quiet
   \<and> \<not> fst (process_loop quiet (config 10 False)
        [(instant 0, Delivered malformed_message), (instant 61, Delivered status_message)] (init 0))"
proof -
  let ?c = "config 10 False"
  let ?late = "[(instant 61, Delivered status_message)]"
  let ?cancelling = "quiet\<lparr>update_table_ledger := (\<lambda>stock m. Inl CancelledError)\<rparr>"
  have k: "iteration quiet ?c (instant 0) malformed_message (init 0)
     = (Some (KeyError ''type''), init 0)"
    by (simp add: loop_defs malformed_message_def)
  have ix: "iteration quiet ?c (instant 61) status_message (init 0) = (Some IndexError, init 0)"
    by (simp add: loop_defs status_message_def config_def)
  have ix': "iteration quiet ?c (instant 61) status_message
       ((init 0)\<lparr>logged := logged (init 0) @ [UnexpectedMessage (KeyError ''type'') malformed_message]\<rparr>)
     = (Some IndexError,
        (init 0)\<lparr>logged := logged (init 0) @ [UnexpectedMessage (KeyError ''type'') malformed_message]\<rparr>)"
    by (simp add: loop_defs status_message_def config_def)
  have cn: "iteration ?cancelling ?c (instant 0) ledger_message (init 0)
     = (Some CancelledError, init 0)"
    by (simp add: loop_defs ledger_message_def)
  have u: "uninterrupted quiet" by (simp add: uninterrupted_def quiet_def)
  have dl: "list_all (\<lambda>x. is_message (snd x))
      [(instant 0, Delivered malformed_message), (instant 61, Delivered status_message)]"
    by simp
  note a = process_loop_recovery[where ext = quiet and settings = ?c and t = "instant 0"
      and m = malformed_message and s = "init 0" and s' = "init 0" and k = "''type''"
      and rest = ?late and dv = Interrupted
      and deliveries = "[(instant 0, Delivered malformed_message),
                         (instant 61, Delivered status_message)]"]
  note b = process_loop_recovery[where ext = quiet and settings = ?c and t = "instant 61"
      and m = status_message and e = IndexError and rest = "[]"
      and s = "(init 0)\<lparr>logged := logged (init 0)
                 @ [UnexpectedMessage (KeyError ''type'') malformed_message]\<rparr>"
      and s' = "(init 0)\<lparr>logged := logged (init 0)
                 @ [UnexpectedMessage (KeyError ''type'') malformed_message]\<rparr>"]
  note c = process_loop_recovery[where ext = ?cancelling and settings = ?c and t = "instant 0"
      and m = ledger_message and e = CancelledError and s = "init 0" and s' = "init 0"
      and rest = ?late]
  from b ix' have 2: "process_loop quiet ?c ?late
       ((init 0)\<lparr>logged := logged (init 0) @ [UnexpectedMessage (KeyError ''type'') malformed_message]\<rparr>)
     = (False, (init 0)\<lparr>logged := [UnexpectedMessage (KeyError ''type'') malformed_message,
                                     UncaughtException IndexError]\<rparr>)"
    by (simp add: init_def)
  from a k have "process_loop quiet ?c
        [(instant 0, Delivered malformed_message), (instant 61, Delivered status_message)] (init 0)
     = process_loop quiet ?c ?late
         ((init 0)\<lparr>logged := logged (init 0) @ [UnexpectedMessage (KeyError ''type'') malformed_message]\<rparr>)"
    by blast
  with 2 have 1: "process_loop quiet ?c
        [(instant 0, Delivered malformed_message), (instant 61, Delivered status_message)] (init 0)
     = (False, (init 0)\<lparr>logged := [UnexpectedMessage (KeyError ''type'') malformed_message,
                                     UncaughtException IndexError]\<rparr>)"
    by simp
  from c cn have 3: "process_loop ?cancelling ?c
        [(instant 0, Delivered ledger_message), (instant 61, Delivered status_message)] (init 0)
     = (True, (init 0)\<lparr>logged := [ProcessorStopped]\<rparr>)"
    by (simp add: init_def)
  from a have 4: "process_loop quiet ?c
        [(instant 0, Interrupted), (instant 61, Delivered status_message)] (init 0)
     = (True, (init 0)\<lparr>logged := [ProcessorStopped]\<rparr>)"
    by (simp add: init_def)
  from a u dl have 5: "\<not> fst (process_loop quiet ?c
        [(instant 0, Delivered malformed_message), (instant 61, Delivered status_message)] (init 0))"
    by blast
  from k 1 ix cn 3 4 u 5 show ?thesis by blast
qed

end
